theory Spec2Isabelle
  imports Complex_Main "HOL-Library.Word"
begin

section \<open>The error channel of skr.h\<close>

text \<open>
  \<^verbatim>\<open>static char SKR_LAST_ERROR[SKR_LAST_ERROR_SIZE]\<close> is modelled as the list of its bytes.
  A C string argument is read up to its first NUL byte (\<open>c_str\<close>), which is what the
  \<^verbatim>\<open>%s\<close> conversion and a reader of the buffer do.
\<close>

definition NUL :: char where
  "NUL = CHR 0x00"

definition SKR_LAST_ERROR_SIZE :: nat where
  "SKR_LAST_ERROR_SIZE = 1044"

definition c_str :: "string \<Rightarrow> string" where
  "c_str s = takeWhile (\<lambda>c. c \<noteq> NUL) s"

text \<open>\<^verbatim>\<open>#define SKR_OK (SKR_LAST_ERROR[0] == '\0')\<close>\<close>

definition SKR_OK :: "string \<Rightarrow> bool" where
  "SKR_OK buf = (case buf of [] \<Rightarrow> False | c # _ \<Rightarrow> c = NUL)"

text \<open>\<^verbatim>\<open>m_skr_last_error_clear\<close>: \<^verbatim>\<open>SKR_LAST_ERROR[0] = '\0'\<close>.\<close>

definition m_skr_last_error_clear :: "string \<Rightarrow> string" where
  "m_skr_last_error_clear buf = buf[0 := NUL]"

text \<open>
  Storing bytes at an offset of an array. Nothing clips the store: bytes stored beyond the
  end of the array make the list longer, so that an overflow shows as a changed length.
\<close>

definition store_bytes :: "string \<Rightarrow> nat \<Rightarrow> string \<Rightarrow> string" where
  "store_bytes buf off bytes = take off buf @ bytes @ drop (off + length bytes) buf"

text \<open>
  \<^verbatim>\<open>snprintf(buf + off, n, fmt, ...)\<close>, where \<open>out\<close> is the expansion of the format with its
  arguments: at most \<open>n - 1\<close> characters of it are stored, then a NUL; nothing is stored
  when \<open>n = 0\<close>. The value returned is the length of the whole expansion.
\<close>

definition snprintf :: "string \<Rightarrow> nat \<Rightarrow> nat \<Rightarrow> string \<Rightarrow> int \<times> string" where
  "snprintf buf off n out =
     (int (length out),
      if n = 0 then buf else store_bytes buf off (take (n - 1) out @ [NUL]))"

text \<open>The \<^verbatim>\<open>%d\<close> conversion.\<close>

fun dec_nat :: "nat \<Rightarrow> string" where
  "dec_nat n =
     (if n < 10 then [''0123456789'' ! n]
      else dec_nat (n div 10) @ [''0123456789'' ! (n mod 10)])"

definition dec_int :: "int \<Rightarrow> string" where
  "dec_int i = (if i < 0 then ''-'' @ dec_nat (nat (- i)) else dec_nat (nat i))"

text \<open>The expansion of \<^verbatim>\<open>"[SKR] ERROR %s:%d:%s: "\<close> with \<^verbatim>\<open>file, line, func\<close>.\<close>

definition meta_prefix :: "string \<Rightarrow> int \<Rightarrow> string \<Rightarrow> string" where
  "meta_prefix file line func =
     ''[SKR] ERROR '' @ c_str file @ '':'' @ dec_int line @ '':'' @ c_str func @ '': ''"

text \<open>
  \<^verbatim>\<open>m_skr_last_error_set_with_meta(file, line, func, fmt, ...)\<close>; \<open>msg\<close> is the expansion of
  \<^verbatim>\<open>fmt\<close> with the variadic arguments.
\<close>

definition m_skr_last_error_set_with_meta ::
  "string \<Rightarrow> int \<Rightarrow> string \<Rightarrow> string \<Rightarrow> string \<Rightarrow> string" where
  "m_skr_last_error_set_with_meta file line func msg buf =
     (let (written, buf1) = snprintf buf 0 SKR_LAST_ERROR_SIZE (meta_prefix file line func);
          written = (if written < 0 \<or> int SKR_LAST_ERROR_SIZE \<le> written then 0 else written)
      in snd (snprintf buf1 (nat written) (SKR_LAST_ERROR_SIZE - nat written) msg))"

section \<open>Data model\<close>

text \<open>
  An array pointer with its element count is one list option: \<open>None\<close> is the NULL pointer
  and the count is the length of the list. A GL object name (\<^verbatim>\<open>GLuint\<close>) is opaque to
  skr.h, which only tests it against 0 and hands it back to the driver: names are natural
  numbers. The CPU-side fields that no function of skr.h reads (\<^verbatim>\<open>Vertices\<close>, the
  shared textures and the path of a model, the programs of the state) are left out.
\<close>

type_synonym GLenum = "32 word"
type_synonym GLuint = nat

text \<open>The values of the GL headers.\<close>

definition GL_VERTEX_SHADER :: GLenum where
  "GL_VERTEX_SHADER = 0x8B31"

definition GL_FRAGMENT_SHADER :: GLenum where
  "GL_FRAGMENT_SHADER = 0x8B30"

definition GL_GEOMETRY_SHADER :: GLenum where
  "GL_GEOMETRY_SHADER = 0x8DD9"

definition GL_ARRAY_BUFFER :: GLenum where
  "GL_ARRAY_BUFFER = 0x8892"

definition GL_ELEMENT_ARRAY_BUFFER :: GLenum where
  "GL_ELEMENT_ARRAY_BUFFER = 0x8893"

record SkrShader =
  Type :: GLenum
  Source :: "string option"
  Path :: "string option"

record SkrTexture =
  ID :: GLuint

record SkrMesh =
  VAO :: GLuint
  VBO :: GLuint
  EBO :: GLuint
  VertexCount :: "32 word"
  Indices :: "32 word"
  Textures :: "SkrTexture list option"
  Program :: GLuint

record SkrModel =
  Meshes :: "SkrMesh list option"

datatype SkrApiBackendType = SKR_BACKEND_API_GL | SKR_BACKEND_API_VK

datatype SkrWindowBackendType = SKR_BACKEND_WINDOW_GLFW | SKR_BACKEND_WINDOW_SDL

text \<open>
  \<^verbatim>\<open>InputHandler\<close> is a function pointer: the address of the handler, or \<open>None\<close> for
  NULL. \<^verbatim>\<open>GLFW\<close> is the backend's window handle.
\<close>

record SkrWindow =
  Title :: string
  Width :: int
  Height :: int
  InputHandler :: "nat option"
  GLFW :: nat

record SkrState =
  Window :: "SkrWindow option"
  Models :: "SkrModel list"

section \<open>The backend\<close>

text \<open>
  Every call into libc's file functions, GL and GLFW that creates, changes or releases
  something is appended to a log, in the order the code makes it; the pure queries
  (\<^verbatim>\<open>glGetShaderiv\<close>, \<^verbatim>\<open>glGetShaderInfoLog\<close> and their program twins) are not logged.
\<close>

datatype call =
    fopen string
  | glCreateShader GLenum GLuint
  | glShaderSource GLuint string
  | glCompileShader GLuint
  | glDeleteShader GLuint
  | glCreateProgram GLuint
  | glAttachShader GLuint GLuint
  | glLinkProgram GLuint
  | glDeleteProgram GLuint
  | glDetachShader GLuint GLuint
  | glClear
  | glUseProgram GLuint
  | glBindVertexArray GLuint
  | glDrawArrays "32 word"
  | glDeleteTextures GLuint
  | glDeleteVertexArrays GLuint
  | glDeleteBuffers GLuint
  | glBindBuffer GLenum GLuint
  | callInputHandler nat
  | glfwGetFramebufferSize nat
  | glfwSwapBuffers nat
  | glfwPollEvents

text \<open>
  The global state: the error buffer, the log, the number of object names the driver has
  handed out, and the driver's compile or link status and information log of each object.
\<close>

record world =
  SKR_LAST_ERROR :: string
  calls :: "call list"
  names :: nat
  status :: "GLuint \<Rightarrow> bool"
  info_log :: "GLuint \<Rightarrow> string"

text \<open>
  What skr.h does not decide: the build (\<^verbatim>\<open>__FILE__\<close> and the two backend macros), the
  file system, the allocator, the GLSL compiler and linker of the driver, the window
  system and the application's input handlers.
\<close>

record backend =
  src_file :: string
  SKR_BACKEND_API :: SkrApiBackendType
  SKR_BACKEND_WINDOW :: SkrWindowBackendType
  file_contents :: "string \<Rightarrow> string option"
  malloc_ok :: "nat \<Rightarrow> bool"
  compile_ok :: "GLenum \<Rightarrow> string \<Rightarrow> bool"
  compile_log :: "GLenum \<Rightarrow> string \<Rightarrow> string"
  link_ok :: "GLuint list \<Rightarrow> bool"
  link_log :: "GLuint list \<Rightarrow> string"
  framebuffer_size :: "nat \<Rightarrow> int \<times> int"
  input_handler :: "nat \<Rightarrow> SkrWindow \<Rightarrow> SkrWindow"

definition log_call :: "call \<Rightarrow> world \<Rightarrow> world" where
  "log_call c w = w\<lparr>calls := calls w @ [c]\<rparr>"

text \<open>\<^verbatim>\<open>glCreateShader\<close> and \<^verbatim>\<open>glCreateProgram\<close> return a fresh name, never 0.\<close>

definition gl_create_shader :: "GLenum \<Rightarrow> world \<Rightarrow> GLuint \<times> world" where
  "gl_create_shader type w =
     (let n = Suc (names w) in (n, log_call (glCreateShader type n) (w\<lparr>names := n\<rparr>)))"

definition gl_create_program :: "world \<Rightarrow> GLuint \<times> world" where
  "gl_create_program w =
     (let n = Suc (names w) in (n, log_call (glCreateProgram n) (w\<lparr>names := n\<rparr>)))"

text \<open>\<^verbatim>\<open>glShaderSource\<close> followed by \<^verbatim>\<open>glCompileShader\<close>: the driver compiles the string.\<close>

definition gl_compile_shader :: "backend \<Rightarrow> GLenum \<Rightarrow> GLuint \<Rightarrow> string \<Rightarrow> world \<Rightarrow> world" where
  "gl_compile_shader env type shader source w =
     log_call (glCompileShader shader)
       (log_call (glShaderSource shader (c_str source))
          (w\<lparr>status := (status w)(shader := compile_ok env type (c_str source)),
             info_log := (info_log w)(shader := compile_log env type (c_str source))\<rparr>))"

definition gl_link_program :: "backend \<Rightarrow> GLuint \<Rightarrow> GLuint list \<Rightarrow> world \<Rightarrow> world" where
  "gl_link_program env program shaders w =
     log_call (glLinkProgram program)
       (w\<lparr>status := (status w)(program := link_ok env shaders),
          info_log := (info_log w)(program := link_log env shaders)\<rparr>)"

section \<open>Errors, files and shaders\<close>

text \<open>
  The macro \<^verbatim>\<open>m_skr_last_error_set(...)\<close> passes \<^verbatim>\<open>__FILE__, __LINE__, __func__\<close>; the
  model names the function and the line of each use (the line its invocation starts on;
  no property below depends on the number).
\<close>

definition m_skr_last_error_set :: "backend \<Rightarrow> string \<Rightarrow> int \<Rightarrow> string \<Rightarrow> world \<Rightarrow> world" where
  "m_skr_last_error_set env func line msg w =
     w\<lparr>SKR_LAST_ERROR :=
         m_skr_last_error_set_with_meta (src_file env) line func msg (SKR_LAST_ERROR w)\<rparr>"

definition last_error_clear :: "world \<Rightarrow> world" where
  "last_error_clear w = w\<lparr>SKR_LAST_ERROR := m_skr_last_error_clear (SKR_LAST_ERROR w)\<rparr>"

text \<open>
  \<^verbatim>\<open>m_skr_read_file\<close>: \<open>None\<close> is the NULL it returns when the file cannot be opened or the
  buffer cannot be allocated.
\<close>

definition m_skr_read_file :: "backend \<Rightarrow> string \<Rightarrow> world \<Rightarrow> string option \<times> world" where
  "m_skr_read_file env path w =
     (let w1 = log_call (fopen (c_str path)) w in
      case file_contents env (c_str path) of
        None \<Rightarrow> (None, m_skr_last_error_set env ''m_skr_read_file'' 632 ''failed to open'' w1)
      | Some bytes \<Rightarrow>
          if \<not> malloc_ok env (length bytes + 1)
          then (None, m_skr_last_error_set env ''m_skr_read_file'' 643 ''failed to open'' w1)
          else (Some bytes, last_error_clear w1))"

text \<open>\<^verbatim>\<open>GLchar infoLog[1024]\<close>, filled by \<^verbatim>\<open>glGetShaderInfoLog(shader, sizeof(infoLog), ...)\<close>.\<close>

definition get_info_log :: "world \<Rightarrow> GLuint \<Rightarrow> string" where
  "get_info_log w obj = take 1023 (c_str (info_log w obj))"

definition m_skr_gl_check_compile_errors :: "backend \<Rightarrow> GLuint \<Rightarrow> string \<Rightarrow> world \<Rightarrow> int \<times> world" where
  "m_skr_gl_check_compile_errors env shader type w =
     (if c_str type = ''prog'' then
        (if \<not> status w shader
         then (0, m_skr_last_error_set env ''m_skr_gl_check_compile_errors'' 793
                    (''failed to link '' @ c_str type @ '': '' @ get_info_log w shader) w)
         else (1, w))
      else
        (if \<not> status w shader
         then (0, m_skr_last_error_set env ''m_skr_gl_check_compile_errors'' 802
                    (''failed to compile '' @ c_str type @ '': '' @ get_info_log w shader) w)
         else (1, w)))"

definition type_str :: "GLenum \<Rightarrow> string" where
  "type_str type =
     (if type = GL_VERTEX_SHADER then ''vert''
      else if type = GL_FRAGMENT_SHADER then ''frag''
      else if type = GL_GEOMETRY_SHADER then ''geom''
      else ''unknown'')"

definition m_skr_gl_create_shader :: "backend \<Rightarrow> GLenum \<Rightarrow> string \<Rightarrow> world \<Rightarrow> GLuint \<times> world" where
  "m_skr_gl_create_shader env type source w =
     (let (shader, w1) = gl_create_shader type w;
          w2 = gl_compile_shader env type shader source w1;
          (ok, w3) = m_skr_gl_check_compile_errors env shader (type_str type) w2
      in if ok = 0 then (0, log_call (glDeleteShader shader) w3)
         else (shader, last_error_clear w3))"

definition m_skr_gl_create_shader_from_file ::
  "backend \<Rightarrow> GLenum \<Rightarrow> string \<Rightarrow> world \<Rightarrow> GLuint \<times> world" where
  "m_skr_gl_create_shader_from_file env type path w =
     (let (source, w1) = m_skr_read_file env path w in
      case source of
        None \<Rightarrow> (0, w1)
      | Some src \<Rightarrow>
          (let (shader, w2) = m_skr_gl_create_shader env type src w1
           in (shader, last_error_clear w2)))"

text \<open>The loops over an array of shader names.\<close>

definition attach_all :: "GLuint \<Rightarrow> GLuint list \<Rightarrow> world \<Rightarrow> world" where
  "attach_all program shaders w = fold (\<lambda>sh. log_call (glAttachShader program sh)) shaders w"

definition detach_delete_all :: "GLuint \<Rightarrow> GLuint list \<Rightarrow> world \<Rightarrow> world" where
  "detach_delete_all program shaders w =
     fold (\<lambda>sh w'. log_call (glDeleteShader sh) (log_call (glDetachShader program sh) w'))
       shaders w"

definition delete_all :: "GLuint list \<Rightarrow> world \<Rightarrow> world" where
  "delete_all shaders w = fold (\<lambda>sh. log_call (glDeleteShader sh)) shaders w"

definition m_skr_gl_create_program :: "backend \<Rightarrow> GLuint list \<Rightarrow> world \<Rightarrow> GLuint \<times> world" where
  "m_skr_gl_create_program env shaders w =
     (let (program, w1) = gl_create_program w;
          w2 = attach_all program shaders w1;
          w3 = gl_link_program env program shaders w2;
          (ok, w4) = m_skr_gl_check_compile_errors env program ''prog'' w3
      in if ok = 0 then (0, log_call (glDeleteProgram program) w4)
         else (program, last_error_clear (detach_delete_all program shaders w4)))"

text \<open>
  The loop of \<^verbatim>\<open>m_skr_gl_create_program_from_shaders\<close> over the descriptors still to do;
  \<open>shaders\<close> holds the names stored so far, \<^verbatim>\<open>shaders[0 .. i-1]\<close>. \<open>None\<close> is the early
  \<^verbatim>\<open>return 0\<close>.
\<close>

fun compile_loop ::
  "backend \<Rightarrow> SkrShader list \<Rightarrow> GLuint list \<Rightarrow> world \<Rightarrow> GLuint list option \<times> world" where
  "compile_loop env [] shaders w = (Some shaders, w)"
| "compile_loop env (s # rest) shaders w =
     (case Source s of
        Some src \<Rightarrow>
          (let (shader, w1) = m_skr_gl_create_shader env (Type s) src w in
           if shader = 0 then (None, delete_all shaders w1)
           else compile_loop env rest (shaders @ [shader]) w1)
      | None \<Rightarrow>
          (case Path s of
             Some path \<Rightarrow>
               (let (shader, w1) = m_skr_gl_create_shader_from_file env (Type s) path w in
                if shader = 0 then (None, delete_all shaders w1)
                else compile_loop env rest (shaders @ [shader]) w1)
           | None \<Rightarrow>
               (None,
                m_skr_last_error_set env ''m_skr_gl_create_program_from_shaders'' 946
                  ''shader.Source and shader.Path are NULL'' (delete_all shaders w))))"

definition m_skr_gl_create_program_from_shaders ::
  "backend \<Rightarrow> SkrShader list option \<Rightarrow> world \<Rightarrow> GLuint \<times> world" where
  "m_skr_gl_create_program_from_shaders env shaders_input w =
     (case shaders_input of
        None \<Rightarrow>
          (0, m_skr_last_error_set env ''m_skr_gl_create_program_from_shaders'' 922
                ''either shaders_input != 1 or count == 0'' w)
      | Some input \<Rightarrow>
          if length input = 0 then
            (0, m_skr_last_error_set env ''m_skr_gl_create_program_from_shaders'' 922
                  ''either shaders_input != 1 or count == 0'' w)
          else if \<not> malloc_ok env (4 * length input) then
            (0, m_skr_last_error_set env ''m_skr_gl_create_program_from_shaders'' 928
                  ''shaders_input == NULL'' w)
          else
            (case compile_loop env input [] w of
               (None, w1) \<Rightarrow> (0, w1)
             | (Some shaders, w1) \<Rightarrow>
                 (let (program, w2) = m_skr_gl_create_program env shaders w1 in
                  if program = 0 then (0, w2) else (program, last_error_clear w2))))"

section \<open>Rendering and teardown\<close>

definition draw_mesh :: "SkrMesh \<Rightarrow> world \<Rightarrow> world" where
  "draw_mesh mesh w =
     (if VAO mesh = 0 \<or> VertexCount mesh = 0 then w
      else log_call (glDrawArrays (VertexCount mesh))
             (log_call (glBindVertexArray (VAO mesh))
                (log_call (glUseProgram (Program mesh)) w)))"

definition draw_model :: "SkrModel \<Rightarrow> world \<Rightarrow> world" where
  "draw_model model w =
     (case Meshes model of None \<Rightarrow> w | Some meshes \<Rightarrow> fold draw_mesh meshes w)"

definition m_skr_gl_renderer_render :: "SkrState \<Rightarrow> world \<Rightarrow> world" where
  "m_skr_gl_renderer_render s w =
     log_call (glBindVertexArray 0) (fold draw_model (Models s) (log_call glClear w))"

text \<open>
  The body of the inner loop of \<^verbatim>\<open>m_skr_gl_renderer_finalize\<close> for one mesh. The arrays of
  two models are taken not to overlap.
\<close>

definition finalize_mesh :: "SkrMesh \<Rightarrow> world \<Rightarrow> SkrMesh \<times> world" where
  "finalize_mesh mesh w =
     (let w1 = (case Textures mesh of
                  None \<Rightarrow> w
                | Some ts \<Rightarrow>
                    if length ts > 0 then fold (\<lambda>t. log_call (glDeleteTextures (ID t))) ts w
                    else w);
          w2 = (if VAO mesh \<noteq> 0 then log_call (glDeleteVertexArrays (VAO mesh)) w1 else w1);
          w3 = (if VBO mesh \<noteq> 0 then log_call (glDeleteBuffers (VBO mesh)) w2 else w2);
          w4 = (if EBO mesh \<noteq> 0 then log_call (glDeleteBuffers (EBO mesh)) w3 else w3)
      in (mesh\<lparr>VAO := 0, VBO := 0, EBO := 0, Program := 0\<rparr>, w4))"

fun finalize_meshes :: "SkrMesh list \<Rightarrow> world \<Rightarrow> SkrMesh list \<times> world" where
  "finalize_meshes [] w = ([], w)"
| "finalize_meshes (mesh # rest) w =
     (let (mesh', w1) = finalize_mesh mesh w;
          (rest', w2) = finalize_meshes rest w1
      in (mesh' # rest', w2))"

definition finalize_model :: "SkrModel \<Rightarrow> world \<Rightarrow> SkrModel \<times> world" where
  "finalize_model model w =
     (case Meshes model of
        None \<Rightarrow> (model, w)
      | Some meshes \<Rightarrow>
          (let (meshes', w1) = finalize_meshes meshes w
           in (model\<lparr>Meshes := Some meshes'\<rparr>, w1)))"

fun finalize_models :: "SkrModel list \<Rightarrow> world \<Rightarrow> SkrModel list \<times> world" where
  "finalize_models [] w = ([], w)"
| "finalize_models (model # rest) w =
     (let (model', w1) = finalize_model model w;
          (rest', w2) = finalize_models rest w1
      in (model' # rest', w2))"

definition m_skr_gl_renderer_finalize :: "SkrState option \<Rightarrow> world \<Rightarrow> SkrState option \<times> world" where
  "m_skr_gl_renderer_finalize s w =
     (case s of
        None \<Rightarrow> (None, w)
      | Some st \<Rightarrow>
          (let (models', w1) = finalize_models (Models st) w;
               w2 = log_call (glBindVertexArray 0) w1;
               w3 = log_call (glBindBuffer GL_ARRAY_BUFFER 0) w2;
               w4 = log_call (glBindBuffer GL_ELEMENT_ARRAY_BUFFER 0) w3;
               w5 = log_call (glUseProgram 0) w4
           in (Some (st\<lparr>Models := models'\<rparr>), w5)))"

section \<open>The frame\<close>

text \<open>
  \<^verbatim>\<open>m_skr_gl_glfw_renderer_render\<close> dereferences \<^verbatim>\<open>s->Window\<close> unchecked: the result
  \<open>None\<close> is that NULL dereference. The callbacks that GLFW runs inside
  \<^verbatim>\<open>glfwPollEvents\<close> are outside the model; the call itself is logged.
\<close>

definition m_skr_gl_glfw_renderer_render ::
  "backend \<Rightarrow> SkrState \<Rightarrow> world \<Rightarrow> (SkrState \<times> world) option" where
  "m_skr_gl_glfw_renderer_render env s w =
     (case Window s of
        None \<Rightarrow> None
      | Some win \<Rightarrow>
          (let (win1, w1) =
                 (case InputHandler win of
                    None \<Rightarrow> (win, w)
                  | Some f \<Rightarrow> (input_handler env f win, log_call (callInputHandler f) w));
               w2 = log_call (glfwGetFramebufferSize (GLFW win1)) w1;
               win2 = win1\<lparr>Width := fst (framebuffer_size env (GLFW win1)),
                           Height := snd (framebuffer_size env (GLFW win1))\<rparr>;
               s2 = s\<lparr>Window := Some win2\<rparr>;
               w3 = m_skr_gl_renderer_render s2 w2;
               w4 = log_call (glfwSwapBuffers (GLFW win2)) w3;
               w5 = log_call glfwPollEvents w4
           in Some (s2, w5)))"

definition SkrRendererRender ::
  "backend \<Rightarrow> SkrState option \<Rightarrow> world \<Rightarrow> (SkrState option \<times> world) option" where
  "SkrRendererRender env s w =
     (case s of
        None \<Rightarrow> Some (None, w)
      | Some st \<Rightarrow>
          if Window st = None then Some (Some st, w)
          else if SKR_BACKEND_API env = SKR_BACKEND_API_GL then
            (if SKR_BACKEND_WINDOW env = SKR_BACKEND_WINDOW_GLFW then
               map_option (\<lambda>(st', w'). (Some st', w')) (m_skr_gl_glfw_renderer_render env st w)
             else Some (Some st, w))
          else Some (Some st, w))"

section \<open>The camera\<close>

text \<open>
  A \<^verbatim>\<open>float\<close> is a real number (\<open>Fin\<close>), one of the two infinities or NaN, as in
  IEEE 754. Addition, subtraction and multiplication follow the standard on the
  infinities and on NaN, and round the exact result of two finite operands with \<open>rnd\<close>.
  The model leaves \<open>rnd\<close> open (it may round, and overflow to an infinity, in any way),
  as it does \<^verbatim>\<open>cosf\<close>, \<^verbatim>\<open>sinf\<close> and cglm's \<^verbatim>\<open>glm_rad\<close> and \<^verbatim>\<open>glm_vec3_normalize_to\<close>:
  the arithmetic of the platform is one instance. A comparison with NaN is false.
\<close>

datatype c_float = Fin real | PInf | NInf | NaN

type_synonym vec3 = "c_float \<times> c_float \<times> c_float"

record float_env =
  rnd :: "real \<Rightarrow> c_float"
  cosf :: "c_float \<Rightarrow> c_float"
  sinf :: "c_float \<Rightarrow> c_float"
  glm_rad :: "c_float \<Rightarrow> c_float"
  glm_vec3_normalize_to :: "vec3 \<Rightarrow> vec3"

fun fneg :: "c_float \<Rightarrow> c_float" where
  "fneg (Fin x) = Fin (- x)"
| "fneg PInf = NInf"
| "fneg NInf = PInf"
| "fneg NaN = NaN"

fun fadd :: "float_env \<Rightarrow> c_float \<Rightarrow> c_float \<Rightarrow> c_float" where
  "fadd fe (Fin x) (Fin y) = rnd fe (x + y)"
| "fadd fe NaN b = NaN"
| "fadd fe a NaN = NaN"
| "fadd fe PInf NInf = NaN"
| "fadd fe NInf PInf = NaN"
| "fadd fe PInf b = PInf"
| "fadd fe NInf b = NInf"
| "fadd fe a PInf = PInf"
| "fadd fe a NInf = NInf"

definition fsub :: "float_env \<Rightarrow> c_float \<Rightarrow> c_float \<Rightarrow> c_float" where
  "fsub fe a b = fadd fe a (fneg b)"

definition inf_times :: "bool \<Rightarrow> real \<Rightarrow> c_float" where
  "inf_times positive y =
     (if y = 0 then NaN else if (0 < y) = positive then PInf else NInf)"

fun fmul :: "float_env \<Rightarrow> c_float \<Rightarrow> c_float \<Rightarrow> c_float" where
  "fmul fe (Fin x) (Fin y) = rnd fe (x * y)"
| "fmul fe NaN b = NaN"
| "fmul fe a NaN = NaN"
| "fmul fe PInf (Fin y) = inf_times True y"
| "fmul fe NInf (Fin y) = inf_times False y"
| "fmul fe (Fin x) PInf = inf_times True x"
| "fmul fe (Fin x) NInf = inf_times False x"
| "fmul fe PInf PInf = PInf"
| "fmul fe NInf NInf = PInf"
| "fmul fe PInf NInf = NInf"
| "fmul fe NInf PInf = NInf"

fun flt :: "c_float \<Rightarrow> c_float \<Rightarrow> bool" where
  "flt (Fin x) (Fin y) = (x < y)"
| "flt NaN b = False"
| "flt a NaN = False"
| "flt a NInf = False"
| "flt PInf b = False"
| "flt NInf b = True"
| "flt a PInf = True"

definition fgt :: "c_float \<Rightarrow> c_float \<Rightarrow> bool" where
  "fgt a b = flt b a"

text \<open>
  The callback updates the camera behind the global \<^verbatim>\<open>g_skr_camera\<close>, here passed and
  returned. \<open>xpos\<close> and \<open>ypos\<close> are the cursor coordinates after their conversion to
  \<^verbatim>\<open>float\<close> in the first two lines of the callback.
\<close>

record SkrCamera =
  Position :: vec3
  Front :: vec3
  Up :: vec3
  Right :: vec3
  WorldUp :: vec3
  Yaw :: c_float
  Pitch :: c_float
  FOV :: c_float
  Sensitivity :: c_float
  LastX :: c_float
  LastY :: c_float
  FirstMouse :: bool
  Initialized :: bool

definition m_skr_gl_glfw_mouse_callback ::
  "float_env \<Rightarrow> SkrCamera \<Rightarrow> c_float \<Rightarrow> c_float \<Rightarrow> SkrCamera" where
  "m_skr_gl_glfw_mouse_callback fe cam xpos ypos =
     (let cam1 = (if FirstMouse cam
                  then cam\<lparr>LastX := xpos, LastY := ypos, FirstMouse := False\<rparr>
                  else cam);
          xoffset = fsub fe xpos (LastX cam1);
          yoffset = fsub fe (LastY cam1) ypos;
          cam2 = cam1\<lparr>LastX := xpos, LastY := ypos\<rparr>;
          sensitivity = Sensitivity cam2;
          xoffset = fmul fe xoffset sensitivity;
          yoffset = fmul fe yoffset sensitivity;
          cam3 = cam2\<lparr>Yaw := fadd fe (Yaw cam2) xoffset, Pitch := fadd fe (Pitch cam2) yoffset\<rparr>;
          cam4 = (if fgt (Pitch cam3) (Fin 89) then cam3\<lparr>Pitch := Fin 89\<rparr> else cam3);
          cam5 = (if flt (Pitch cam4) (Fin (- 89)) then cam4\<lparr>Pitch := Fin (- 89)\<rparr> else cam4);
          front = (fmul fe (cosf fe (glm_rad fe (Yaw cam5))) (cosf fe (glm_rad fe (Pitch cam5))),
                   sinf fe (glm_rad fe (Pitch cam5)),
                   fmul fe (sinf fe (glm_rad fe (Yaw cam5))) (cosf fe (glm_rad fe (Pitch cam5))))
      in cam5\<lparr>Front := glm_vec3_normalize_to fe front\<rparr>)"

text \<open>
  The callback as GLFW calls it, with the cursor position in \<^verbatim>\<open>double\<close>: the two
  conversions \<^verbatim>\<open>float xpos = xposIn; float ypos = yposIn;\<close> and then the body above. A
  \<^verbatim>\<open>double\<close> has the shape of a \<^verbatim>\<open>float\<close>; the conversion rounds a finite value with
  \<open>rnd\<close> (to an infinity when it is out of range) and keeps an infinity and NaN.
\<close>

type_synonym c_double = c_float

definition double_to_float :: "float_env \<Rightarrow> c_double \<Rightarrow> c_float" where
  "double_to_float fe d = (case d of Fin x \<Rightarrow> rnd fe x | _ \<Rightarrow> d)"

definition glfw_cursor_pos_callback ::
  "float_env \<Rightarrow> SkrCamera \<Rightarrow> c_double \<Rightarrow> c_double \<Rightarrow> SkrCamera" where
  "glfw_cursor_pos_callback fe cam xposIn yposIn =
     (let xpos = double_to_float fe xposIn;
          ypos = double_to_float fe yposIn
      in m_skr_gl_glfw_mouse_callback fe cam xpos ypos)"

text \<open>
  The macro \<^verbatim>\<open>SkrDefaultFPSCamera\<close>; the fields its compound literal does not name are
  zero. \<^verbatim>\<open>0.1f\<close> denotes 13421773 / 2^27.
\<close>

definition SkrDefaultFPSCamera :: SkrCamera where
  "SkrDefaultFPSCamera =
     \<lparr>Position = (Fin 0, Fin 0, Fin 3), Front = (Fin 0, Fin 0, Fin (- 1)),
      Up = (Fin 0, Fin 1, Fin 0), Right = (Fin 0, Fin 0, Fin 0),
      WorldUp = (Fin 0, Fin 0, Fin 0), Yaw = Fin (- 90), Pitch = Fin 0, FOV = Fin 70,
      Sensitivity = Fin (13421773 / 134217728), LastX = Fin 400, LastY = Fin 300,
      FirstMouse = True, Initialized = False\<rparr>"


section \<open>Predicates used in the statements\<close>

text \<open>A mesh, and every mesh of a model, after teardown: all four handles are zero.\<close>

definition mesh_zeroed :: "SkrMesh \<Rightarrow> bool" where
  "mesh_zeroed mesh = (VAO mesh = 0 \<and> VBO mesh = 0 \<and> EBO mesh = 0 \<and> Program mesh = 0)"

definition model_zeroed :: "SkrModel \<Rightarrow> bool" where
  "model_zeroed model =
     (case Meshes model of None \<Rightarrow> True | Some meshes \<Rightarrow> list_all mesh_zeroed meshes)"

text \<open>
  The calls that one trip through the loop of \<^verbatim>\<open>m_skr_gl_create_program_from_shaders\<close>
  makes for a descriptor, when the shader object it creates gets the name \<open>h\<close>: the
  three calls of a compilation, followed by the deletion of the object when the
  compilation fails (\<open>compile_calls\<close>); before them the opening of the file, for a
  descriptor read from its path. \<open>shader_ok\<close> says that a descriptor resolves and
  compiles.
\<close>

definition compile_calls :: "GLenum \<Rightarrow> string \<Rightarrow> GLuint \<Rightarrow> bool \<Rightarrow> call list" where
  "compile_calls type src h ok =
     [glCreateShader type h, glShaderSource h (c_str src), glCompileShader h]
     @ (if ok then [] else [glDeleteShader h])"

definition shader_ok :: "backend \<Rightarrow> SkrShader \<Rightarrow> bool" where
  "shader_ok env s =
     (case Source s of
        Some src \<Rightarrow> compile_ok env (Type s) (c_str src)
      | None \<Rightarrow>
          (case Path s of
             None \<Rightarrow> False
           | Some path \<Rightarrow>
               (case file_contents env (c_str path) of
                  None \<Rightarrow> False
                | Some bytes \<Rightarrow>
                    malloc_ok env (length bytes + 1) \<and> compile_ok env (Type s) (c_str bytes))))"

definition attempt_calls :: "backend \<Rightarrow> SkrShader \<Rightarrow> GLuint \<Rightarrow> call list" where
  "attempt_calls env s h =
     (case Source s of
        Some src \<Rightarrow> compile_calls (Type s) src h (compile_ok env (Type s) (c_str src))
      | None \<Rightarrow>
          (case Path s of
             None \<Rightarrow> []
           | Some path \<Rightarrow>
               fopen (c_str path) #
               (case file_contents env (c_str path) of
                  None \<Rightarrow> []
                | Some bytes \<Rightarrow>
                    if malloc_ok env (length bytes + 1)
                    then compile_calls (Type s) bytes h (compile_ok env (Type s) (c_str bytes))
                    else [])))"


text \<open>
  The files a log opens; a descriptor with its path erased when it has a source; the
  paths of the descriptors that have no source.
\<close>

fun opened :: "call list \<Rightarrow> string list" where
  "opened [] = []"
| "opened (fopen p # cs) = p # opened cs"
| "opened (c # cs) = opened cs"

definition source_only :: "SkrShader \<Rightarrow> SkrShader" where
  "source_only s = (case Source s of None \<Rightarrow> s | Some src \<Rightarrow> s\<lparr>Path := None\<rparr>)"

definition sourceless_paths :: "SkrShader list \<Rightarrow> string list" where
  "sourceless_paths input =
     concat (map (\<lambda>s. case Source s of
                         Some src \<Rightarrow> []
                       | None \<Rightarrow> (case Path s of None \<Rightarrow> [] | Some path \<Rightarrow> [c_str path]))
                 input)"


text \<open>
  The camera: the range of the pitch; the pitch after the \<^verbatim>\<open>+=\<close> of the callback and
  before its two comparisons; the two comparisons; a sequence of cursor events; the vector
  that the callback normalises into \<^verbatim>\<open>Front\<close>.
\<close>

definition in_pitch_range :: "c_float \<Rightarrow> bool" where
  "in_pitch_range a = (case a of Fin p \<Rightarrow> - 89 \<le> p \<and> p \<le> 89 | _ \<Rightarrow> False)"

definition unclamped_pitch :: "float_env \<Rightarrow> SkrCamera \<Rightarrow> c_float \<Rightarrow> c_float" where
  "unclamped_pitch fe cam ypos =
     fadd fe (Pitch cam)
       (fmul fe (fsub fe (if FirstMouse cam then ypos else LastY cam) ypos) (Sensitivity cam))"

definition clamp_pitch :: "c_float \<Rightarrow> c_float" where
  "clamp_pitch a = (if fgt a (Fin 89) then Fin 89 else if flt a (Fin (- 89)) then Fin (- 89) else a)"

definition mouse_moves ::
  "float_env \<Rightarrow> (c_float \<times> c_float) list \<Rightarrow> SkrCamera \<Rightarrow> SkrCamera" where
  "mouse_moves fe positions cam =
     fold (\<lambda>(xpos, ypos) c. m_skr_gl_glfw_mouse_callback fe c xpos ypos) positions cam"

definition spherical_front :: "float_env \<Rightarrow> c_float \<Rightarrow> c_float \<Rightarrow> vec3" where
  "spherical_front fe yaw pitch =
     (fmul fe (cosf fe (glm_rad fe yaw)) (cosf fe (glm_rad fe pitch)),
      sinf fe (glm_rad fe pitch),
      fmul fe (sinf fe (glm_rad fe yaw)) (cosf fe (glm_rad fe pitch)))"


text \<open>A value of the \<^verbatim>\<open>float\<close> format: rounding gives it back.\<close>

definition is_float :: "float_env \<Rightarrow> c_float \<Rightarrow> bool" where
  "is_float fe a = (case a of Fin x \<Rightarrow> rnd fe x = Fin x | _ \<Rightarrow> True)"

text \<open>The calls of the draw pass over the models of a state.\<close>

definition mesh_draw_calls :: "SkrMesh \<Rightarrow> call list" where
  "mesh_draw_calls mesh =
     (if VAO mesh = 0 \<or> VertexCount mesh = 0 then []
      else [glUseProgram (Program mesh), glBindVertexArray (VAO mesh),
            glDrawArrays (VertexCount mesh)])"

definition draw_calls :: "SkrModel list \<Rightarrow> call list" where
  "draw_calls models =
     concat (map (\<lambda>model. case Meshes model of
                               None \<Rightarrow> []
                             | Some meshes \<Rightarrow> concat (map mesh_draw_calls meshes))
                 models)"


section \<open>Example inputs\<close>

text \<open>The global state at program start: static storage is zeroed, nothing was called.\<close>

definition world0 :: world where
  "world0 = \<lparr>SKR_LAST_ERROR = replicate SKR_LAST_ERROR_SIZE NUL, calls = [], names = 0,
             status = (\<lambda>_. False), info_log = (\<lambda>_. [])\<rparr>"

definition example_mesh :: SkrMesh where
  "example_mesh = \<lparr>VAO = 2, VBO = 3, EBO = 0, VertexCount = 3, Indices = 0,
                   Textures = None, Program = 1\<rparr>"

definition example_state :: SkrState where
  "example_state = \<lparr>Window = None, Models = [\<lparr>Meshes = Some [example_mesh]\<rparr>]\<rparr>"

definition torn_down_state :: SkrState where
  "torn_down_state =
     \<lparr>Window = None,
      Models = [\<lparr>Meshes = Some [example_mesh\<lparr>VAO := 0, VBO := 0, EBO := 0, Program := 0\<rparr>]\<rparr>]\<rparr>"

text \<open>
  A backend whose only file, \<^verbatim>\<open>bad.frag\<close>, holds a source that does not compile, and four
  shader descriptors.
\<close>

definition example_backend :: backend where
  "example_backend =
     \<lparr>src_file = ''skr.h'',
      SKR_BACKEND_API = SKR_BACKEND_API_GL,
      SKR_BACKEND_WINDOW = SKR_BACKEND_WINDOW_GLFW,
      file_contents = (\<lambda>p. if p = ''bad.frag'' then Some ''void main() {'' else None),
      malloc_ok = (\<lambda>_. True),
      compile_ok = (\<lambda>_ src. src \<noteq> ''void main() {''),
      compile_log = (\<lambda>_ _. ''syntax error''),
      link_ok = (\<lambda>_. True),
      link_log = (\<lambda>_. []),
      framebuffer_size = (\<lambda>_. (800, 600)),
      input_handler = (\<lambda>_ win. win)\<rparr>"

definition vert_inline :: SkrShader where
  "vert_inline = \<lparr>Type = GL_VERTEX_SHADER, Source = Some ''void main() {}'', Path = None\<rparr>"

definition frag_bad_file :: SkrShader where
  "frag_bad_file = \<lparr>Type = GL_FRAGMENT_SHADER, Source = None, Path = Some ''bad.frag''\<rparr>"

definition frag_both :: SkrShader where
  "frag_both =
     \<lparr>Type = GL_FRAGMENT_SHADER, Source = Some ''void main() {}'', Path = Some ''bad.frag''\<rparr>"

definition geom_absent :: SkrShader where
  "geom_absent = \<lparr>Type = GL_GEOMETRY_SHADER, Source = None, Path = None\<rparr>"


text \<open>A state with a window, an input handler and one live mesh.\<close>

definition frame_state :: SkrState where
  "frame_state =
     \<lparr>Window = Some \<lparr>Title = ''Hello SKR'', Width = 800, Height = 600,
                      InputHandler = Some 7, GLFW = 1\<rparr>,
      Models = [\<lparr>Meshes = Some [example_mesh]\<rparr>]\<rparr>"


text \<open>Float arithmetic without rounding error, and a normalisation that does nothing.\<close>

definition exact_floats :: float_env where
  "exact_floats =
     \<lparr>rnd = Fin,
      cosf = (\<lambda>a. case a of Fin x \<Rightarrow> Fin (cos x) | _ \<Rightarrow> NaN),
      sinf = (\<lambda>a. case a of Fin x \<Rightarrow> Fin (sin x) | _ \<Rightarrow> NaN),
      glm_rad = (\<lambda>a. case a of Fin x \<Rightarrow> Fin (x * pi / 180) | _ \<Rightarrow> a),
      glm_vec3_normalize_to = (\<lambda>v. v)\<rparr>"


section \<open>Properties of the error channel\<close>

lemma length_store_bytes:
  "off + length bytes \<le> length buf \<Longrightarrow> length (store_bytes buf off bytes) = length buf"
  by (simp add: store_bytes_def)

lemma c_str_append_NUL: "c_str (xs @ NUL # ys) = c_str xs"
  by (induction xs) (simp_all add: c_str_def)

lemma c_str_store_0: "c_str (store_bytes buf 0 (xs @ [NUL])) = c_str xs"
  by (simp add: store_bytes_def c_str_append_NUL)

lemma store_bytes_after_prefix:
  "ys \<noteq> [] \<Longrightarrow>
   store_bytes (store_bytes buf 0 (p @ [z])) (length p) ys = store_bytes buf 0 (p @ ys)"
  by (cases ys) (simp_all add: store_bytes_def add.commute)

lemma set_with_meta_fits:
  assumes "length (meta_prefix file line func) < SKR_LAST_ERROR_SIZE"
  shows "m_skr_last_error_set_with_meta file line func msg buf =
         store_bytes buf 0
           (take (SKR_LAST_ERROR_SIZE - 1) (meta_prefix file line func @ msg) @ [NUL])"
proof -
  let ?p = "meta_prefix file line func"
  let ?n = "SKR_LAST_ERROR_SIZE"
  have pos: "0 < ?n" by (simp add: SKR_LAST_ERROR_SIZE_def)
  have tp: "take (?n - 1) ?p = ?p" using assms by simp
  have "m_skr_last_error_set_with_meta file line func msg buf =
        store_bytes (store_bytes buf 0 (?p @ [NUL])) (length ?p)
          (take (?n - length ?p - 1) msg @ [NUL])"
    using assms pos by (simp add: m_skr_last_error_set_with_meta_def snprintf_def tp)
  also have "\<dots> = store_bytes buf 0 (?p @ take (?n - length ?p - 1) msg @ [NUL])"
    by (rule store_bytes_after_prefix) simp
  also have "?p @ take (?n - length ?p - 1) msg @ [NUL] = take (?n - 1) (?p @ msg) @ [NUL]"
    using assms by simp
  finally show ?thesis .
qed

lemma set_with_meta_too_long:
  assumes "SKR_LAST_ERROR_SIZE \<le> length (meta_prefix file line func)"
  shows "m_skr_last_error_set_with_meta file line func msg buf =
         store_bytes
           (store_bytes buf 0 (take (SKR_LAST_ERROR_SIZE - 1) (meta_prefix file line func) @ [NUL]))
           0 (take (SKR_LAST_ERROR_SIZE - 1) msg @ [NUL])"
proof -
  have "0 < SKR_LAST_ERROR_SIZE" by (simp add: SKR_LAST_ERROR_SIZE_def)
  then show ?thesis
    using assms by (simp add: m_skr_last_error_set_with_meta_def snprintf_def)
qed

lemma length_set_with_meta:
  assumes "length buf = SKR_LAST_ERROR_SIZE"
  shows "length (m_skr_last_error_set_with_meta file line func msg buf) = SKR_LAST_ERROR_SIZE"
proof -
  have pos: "0 < SKR_LAST_ERROR_SIZE" by (simp add: SKR_LAST_ERROR_SIZE_def)
  have fit: "0 + length (take (SKR_LAST_ERROR_SIZE - 1) xs @ [NUL]) \<le> length b"
    if "length b = SKR_LAST_ERROR_SIZE" for xs b
    using pos that by simp
  show ?thesis
  proof (cases "length (meta_prefix file line func) < SKR_LAST_ERROR_SIZE")
    case True
    show ?thesis
      unfolding set_with_meta_fits [OF True] length_store_bytes [OF fit [OF assms]]
      by (rule assms)
  next
    case False
    then have long: "SKR_LAST_ERROR_SIZE \<le> length (meta_prefix file line func)" by simp
    have inner: "length (store_bytes buf 0
        (take (SKR_LAST_ERROR_SIZE - 1) (meta_prefix file line func) @ [NUL])) = SKR_LAST_ERROR_SIZE"
      unfolding length_store_bytes [OF fit [OF assms]] by (rule assms)
    show ?thesis
      unfolding set_with_meta_too_long [OF long] length_store_bytes [OF fit [OF inner]]
      by (rule inner)
  qed
qed

lemma SKR_OK_store_0: "SKR_OK (store_bytes buf 0 (xs @ [NUL])) = (xs = [] \<or> hd xs = NUL)"
  by (cases xs) (simp_all add: SKR_OK_def store_bytes_def)

lemma hd_meta_prefix: "hd (meta_prefix file line func @ msg) = CHR ''[''"
  by (simp add: meta_prefix_def)

lemma not_OK_set_fits:
  assumes "length (meta_prefix file line func) < SKR_LAST_ERROR_SIZE"
  shows "\<not> SKR_OK (m_skr_last_error_set_with_meta file line func msg buf)"
proof -
  let ?n = "SKR_LAST_ERROR_SIZE"
  have pos: "1 < ?n" by (simp add: SKR_LAST_ERROR_SIZE_def)
  have ne: "meta_prefix file line func @ msg \<noteq> []" by (simp add: meta_prefix_def)
  then have "take (?n - 1) (meta_prefix file line func @ msg) \<noteq> []"
    using pos by simp
  moreover have "hd (take (?n - 1) (meta_prefix file line func @ msg)) = CHR ''[''"
    using pos ne by (simp add: hd_take hd_meta_prefix del: take_append)
  ultimately show ?thesis
    unfolding set_with_meta_fits [OF assms] SKR_OK_store_0 by (simp add: NUL_def)
qed

lemma c_str_replicate: "c \<noteq> NUL \<Longrightarrow> c_str (replicate n c) = replicate n c"
  by (simp add: c_str_def)

lemma SKR_OK_clear: "buf \<noteq> [] \<Longrightarrow> SKR_OK (m_skr_last_error_clear buf)"
  by (cases buf) (simp_all add: SKR_OK_def m_skr_last_error_clear_def)

text \<open>
  C4 (amended). Whatever the buffer held, \<open>clear\<close> makes \<open>SKR_OK\<close> true, and \<open>set\<close> keeps
  the buffer at its \<open>SKR_LAST_ERROR_SIZE\<close> bytes. When the file, line and function prefix
  is shorter than the buffer, \<open>SKR_OK\<close> is false after \<open>set\<close> and the buffer reads back the
  prefix followed by the message, cut to \<open>SKR_LAST_ERROR_SIZE - 1\<close> characters. When the
  prefix is at least as long as the buffer, the code drops it: the buffer reads back the
  message alone, cut to the same length, and \<open>SKR_OK\<close> is false only for a message that
  is not empty.
\<close>

theorem error_channel_clear_set:
  assumes "length buf = SKR_LAST_ERROR_SIZE"
  shows "SKR_OK (m_skr_last_error_clear buf)
    \<and> length (m_skr_last_error_set_with_meta file line func msg buf) = SKR_LAST_ERROR_SIZE
    \<and> (length (meta_prefix file line func) < SKR_LAST_ERROR_SIZE \<longrightarrow>
         \<not> SKR_OK (m_skr_last_error_set_with_meta file line func msg buf)
         \<and> c_str (m_skr_last_error_set_with_meta file line func msg buf)
           = c_str (take (SKR_LAST_ERROR_SIZE - 1) (meta_prefix file line func @ msg)))
    \<and> (SKR_LAST_ERROR_SIZE \<le> length (meta_prefix file line func) \<longrightarrow>
         SKR_OK (m_skr_last_error_set_with_meta file line func msg buf) = (msg = [] \<or> hd msg = NUL)
         \<and> c_str (m_skr_last_error_set_with_meta file line func msg buf)
           = c_str (take (SKR_LAST_ERROR_SIZE - 1) msg))"
proof -
  have ne: "buf \<noteq> []" using assms by (auto simp: SKR_LAST_ERROR_SIZE_def)
  have big: "1 < SKR_LAST_ERROR_SIZE" by (simp add: SKR_LAST_ERROR_SIZE_def)
  have a: "SKR_OK (m_skr_last_error_clear buf)" by (rule SKR_OK_clear [OF ne])
  have b: "length (m_skr_last_error_set_with_meta file line func msg buf) = SKR_LAST_ERROR_SIZE"
    by (rule length_set_with_meta [OF assms])
  have c: "\<not> SKR_OK (m_skr_last_error_set_with_meta file line func msg buf)
         \<and> c_str (m_skr_last_error_set_with_meta file line func msg buf)
           = c_str (take (SKR_LAST_ERROR_SIZE - 1) (meta_prefix file line func @ msg))"
    if fits: "length (meta_prefix file line func) < SKR_LAST_ERROR_SIZE"
    using not_OK_set_fits [OF fits] by (simp only: set_with_meta_fits [OF fits] c_str_store_0 simp_thms)
  have d: "SKR_OK (m_skr_last_error_set_with_meta file line func msg buf) = (msg = [] \<or> hd msg = NUL)
         \<and> c_str (m_skr_last_error_set_with_meta file line func msg buf)
           = c_str (take (SKR_LAST_ERROR_SIZE - 1) msg)"
    if long: "SKR_LAST_ERROR_SIZE \<le> length (meta_prefix file line func)"
  proof -
    have "(take (SKR_LAST_ERROR_SIZE - 1) msg = [] \<or> hd (take (SKR_LAST_ERROR_SIZE - 1) msg) = NUL)
          = (msg = [] \<or> hd msg = NUL)"
      using big by (cases msg) (auto simp: take_Cons')
    then show ?thesis
      by (simp only: set_with_meta_too_long [OF long] c_str_store_0 SKR_OK_store_0 simp_thms)
  qed
  show ?thesis using a b c d by blast
qed

text \<open>The error that \<^verbatim>\<open>m_skr_read_file\<close> sets, on a buffer of zero bytes.\<close>

theorem error_channel_clear_set_witness:
  "length (replicate SKR_LAST_ERROR_SIZE NUL) = SKR_LAST_ERROR_SIZE
   \<and> SKR_OK (m_skr_last_error_clear (replicate SKR_LAST_ERROR_SIZE NUL))
   \<and> \<not> SKR_OK (m_skr_last_error_set_with_meta ''skr.h'' 632 ''m_skr_read_file'' ''failed to open''
          (replicate SKR_LAST_ERROR_SIZE NUL))
   \<and> c_str (m_skr_last_error_set_with_meta ''skr.h'' 632 ''m_skr_read_file'' ''failed to open''
          (replicate SKR_LAST_ERROR_SIZE NUL))
      = ''[SKR] ERROR skr.h:632:m_skr_read_file: failed to open''"
proof -
  have len: "length (replicate SKR_LAST_ERROR_SIZE NUL) = SKR_LAST_ERROR_SIZE" by simp
  have p: "meta_prefix ''skr.h'' 632 ''m_skr_read_file'' = ''[SKR] ERROR skr.h:632:m_skr_read_file: ''"
    by (simp add: meta_prefix_def c_str_def NUL_def dec_int_def)
  have fits: "length (meta_prefix ''skr.h'' 632 ''m_skr_read_file'') < SKR_LAST_ERROR_SIZE"
    unfolding p by (simp add: SKR_LAST_ERROR_SIZE_def)
  have tk: "take (SKR_LAST_ERROR_SIZE - 1)
              (meta_prefix ''skr.h'' 632 ''m_skr_read_file'' @ ''failed to open'')
            = ''[SKR] ERROR skr.h:632:m_skr_read_file: failed to open''"
    unfolding p by (simp add: SKR_LAST_ERROR_SIZE_def)
  have cs: "c_str ''[SKR] ERROR skr.h:632:m_skr_read_file: failed to open''
            = ''[SKR] ERROR skr.h:632:m_skr_read_file: failed to open''"
    by (simp add: c_str_def NUL_def)
  show ?thesis
    using error_channel_clear_set [OF len, of "''skr.h''" 632 "''m_skr_read_file''" "''failed to open''"]
      fits
    by (simp only: tk cs len simp_thms)
qed

text \<open>
  C4 as stated fails: with a file name of 1100 characters the prefix does not fit, the
  code restarts at offset 0, and an empty message leaves the buffer empty after \<open>set\<close>.
\<close>

theorem error_channel_set_counterexample:
  "SKR_OK (m_skr_last_error_set_with_meta (replicate 1100 (CHR ''a'')) 1 ''f'' []
      (replicate SKR_LAST_ERROR_SIZE NUL))"
proof -
  have "SKR_LAST_ERROR_SIZE \<le> length (meta_prefix (replicate 1100 (CHR ''a'')) 1 ''f'')"
    by (simp add: meta_prefix_def c_str_replicate NUL_def SKR_LAST_ERROR_SIZE_def)
  then show ?thesis
    by (simp only: set_with_meta_too_long SKR_OK_store_0 take.simps simp_thms)
qed

section \<open>Properties of the log\<close>

lemma calls_log_call [simp]: "calls (log_call c w) = calls w @ [c]"
  and names_log_call [simp]: "names (log_call c w) = names w"
  and status_log_call [simp]: "status (log_call c w) = status w"
  and info_log_log_call [simp]: "info_log (log_call c w) = info_log w"
  by (simp_all add: log_call_def)

lemma set_error_fields [simp]:
  "calls (m_skr_last_error_set env func line msg w) = calls w"
  "names (m_skr_last_error_set env func line msg w) = names w"
  "status (m_skr_last_error_set env func line msg w) = status w"
  "info_log (m_skr_last_error_set env func line msg w) = info_log w"
  by (simp_all add: m_skr_last_error_set_def)

lemma clear_error_fields [simp]:
  "calls (last_error_clear w) = calls w"
  "names (last_error_clear w) = names w"
  "status (last_error_clear w) = status w"
  "info_log (last_error_clear w) = info_log w"
  by (simp_all add: last_error_clear_def)

section \<open>Properties of the frame\<close>

text \<open>
  C10. \<^verbatim>\<open>SkrRendererRender\<close> on the NULL state, and on a state whose \<^verbatim>\<open>Window\<close> is NULL,
  returns with the state and the whole global state (error buffer and log of backend
  calls) as they were: no step of the frame runs.
\<close>

theorem SkrRendererRender_null_guard:
  "SkrRendererRender env None w = Some (None, w)
   \<and> SkrRendererRender env (Some (s\<lparr>Window := None\<rparr>)) w = Some (Some (s\<lparr>Window := None\<rparr>), w)"
  by (simp add: SkrRendererRender_def)

text \<open>
  The calls of a frame on any state with a window, in the order the code makes them: the
  input handler if one is installed, the query of the framebuffer size, the clear and
  the draw pass, the swap of the buffers, the poll of the events.
\<close>

lemma calls_draw_mesh: "calls (draw_mesh mesh w) = calls w @ mesh_draw_calls mesh"
  by (simp add: draw_mesh_def mesh_draw_calls_def)

lemma calls_fold_draw_mesh:
  "calls (fold draw_mesh meshes w) = calls w @ concat (map mesh_draw_calls meshes)"
  by (induction meshes arbitrary: w) (simp_all add: calls_draw_mesh)

lemma calls_fold_draw_model:
  "calls (fold draw_model models w) = calls w @ draw_calls models"
proof (induction models arbitrary: w)
  case Nil
  show ?case by (simp add: draw_calls_def)
next
  case (Cons model models)
  have "calls (draw_model model w)
        = calls w @ (case Meshes model of None \<Rightarrow> []
                     | Some meshes \<Rightarrow> concat (map mesh_draw_calls meshes))"
    by (simp add: draw_model_def calls_fold_draw_mesh split: option.splits)
  then show ?case
    using Cons.IH [of "draw_model model w"] by (simp add: draw_calls_def)
qed

lemma calls_renderer_render:
  "calls (m_skr_gl_renderer_render s w)
     = calls w @ glClear # draw_calls (Models s) @ [glBindVertexArray 0]"
  by (simp add: m_skr_gl_renderer_render_def calls_fold_draw_model)

lemma frame_order:
  assumes "Window s = Some win"
  shows "\<exists>s' w'. m_skr_gl_glfw_renderer_render env s w = Some (s', w')
        \<and> calls w'
            = calls w
              @ (case InputHandler win of None \<Rightarrow> [] | Some f \<Rightarrow> [callInputHandler f])
              @ glfwGetFramebufferSize
                  (GLFW (case InputHandler win of None \<Rightarrow> win | Some f \<Rightarrow> input_handler env f win))
              # glClear # draw_calls (Models s)
              @ [glBindVertexArray 0,
                 glfwSwapBuffers
                   (GLFW (case InputHandler win of None \<Rightarrow> win | Some f \<Rightarrow> input_handler env f win)),
                 glfwPollEvents]"
  using assms
  by (cases "InputHandler win")
    (simp_all add: m_skr_gl_glfw_renderer_render_def Let_def calls_renderer_render)


text \<open>
  C2 fails on the code: \<^verbatim>\<open>m_skr_gl_glfw_renderer_render\<close> polls the events after the swap
  of the buffers, as the last step of the frame, not as the second.
\<close>

theorem frame_polls_events_last:
  "map_option (\<lambda>r. calls (snd r)) (SkrRendererRender example_backend (Some frame_state) world0)
   = Some [callInputHandler 7, glfwGetFramebufferSize 1, glClear, glUseProgram 1,
           glBindVertexArray 2, glDrawArrays 3, glBindVertexArray 0, glfwSwapBuffers 1,
           glfwPollEvents]"
  by (simp add: SkrRendererRender_def m_skr_gl_glfw_renderer_render_def frame_state_def
      example_backend_def m_skr_gl_renderer_render_def draw_model_def draw_mesh_def
      example_mesh_def world0_def log_call_def Let_def)

section \<open>Properties of teardown\<close>

lemma error_log_call [simp]: "SKR_LAST_ERROR (log_call c w) = SKR_LAST_ERROR w"
  by (simp add: log_call_def)

lemma error_fold_log_call [simp]:
  "SKR_LAST_ERROR (fold (\<lambda>x. log_call (f x)) xs w) = SKR_LAST_ERROR w"
  by (induction xs arbitrary: w) simp_all

lemma finalize_mesh_error: "SKR_LAST_ERROR (snd (finalize_mesh mesh w)) = SKR_LAST_ERROR w"
  by (simp add: finalize_mesh_def Let_def split: option.splits)

lemma finalize_mesh_zeroes: "mesh_zeroed (fst (finalize_mesh mesh w))"
  by (simp add: finalize_mesh_def Let_def mesh_zeroed_def)

lemma finalize_mesh_fixed: "mesh_zeroed mesh \<Longrightarrow> fst (finalize_mesh mesh w) = mesh"
  by (simp add: finalize_mesh_def Let_def mesh_zeroed_def)

lemma finalize_meshes_error: "SKR_LAST_ERROR (snd (finalize_meshes meshes w)) = SKR_LAST_ERROR w"
proof (induction meshes arbitrary: w)
  case Nil
  show ?case by simp
next
  case (Cons mesh rest)
  show ?case
    using Cons.IH [of "snd (finalize_mesh mesh w)"] finalize_mesh_error [of mesh w]
    by (simp add: split_beta Let_def)
qed

lemma finalize_meshes_zeroes: "list_all mesh_zeroed (fst (finalize_meshes meshes w))"
proof (induction meshes arbitrary: w)
  case Nil
  show ?case by simp
next
  case (Cons mesh rest)
  show ?case
    using Cons.IH [of "snd (finalize_mesh mesh w)"] finalize_mesh_zeroes [of mesh w]
    by (simp add: split_beta Let_def)
qed

lemma finalize_meshes_fixed:
  "list_all mesh_zeroed meshes \<Longrightarrow> fst (finalize_meshes meshes w) = meshes"
proof (induction meshes arbitrary: w)
  case Nil
  show ?case by simp
next
  case (Cons mesh rest)
  then show ?case
    using finalize_mesh_fixed [of mesh w] by (simp add: split_beta Let_def)
qed

lemma finalize_model_error: "SKR_LAST_ERROR (snd (finalize_model model w)) = SKR_LAST_ERROR w"
  by (simp add: finalize_model_def split_beta Let_def finalize_meshes_error split: option.splits)

lemma finalize_model_zeroes: "model_zeroed (fst (finalize_model model w))"
  by (simp add: finalize_model_def model_zeroed_def split_beta Let_def finalize_meshes_zeroes
      split: option.splits)

lemma finalize_model_fixed: "model_zeroed model \<Longrightarrow> fst (finalize_model model w) = model"
  by (simp add: finalize_model_def model_zeroed_def split_beta Let_def finalize_meshes_fixed
      split: option.splits)

lemma finalize_models_error: "SKR_LAST_ERROR (snd (finalize_models models w)) = SKR_LAST_ERROR w"
proof (induction models arbitrary: w)
  case Nil
  show ?case by simp
next
  case (Cons model rest)
  show ?case
    using Cons.IH [of "snd (finalize_model model w)"] finalize_model_error [of model w]
    by (simp add: split_beta Let_def)
qed

lemma finalize_models_zeroes: "list_all model_zeroed (fst (finalize_models models w))"
proof (induction models arbitrary: w)
  case Nil
  show ?case by simp
next
  case (Cons model rest)
  show ?case
    using Cons.IH [of "snd (finalize_model model w)"] finalize_model_zeroes [of model w]
    by (simp add: split_beta Let_def)
qed

lemma finalize_models_fixed:
  "list_all model_zeroed models \<Longrightarrow> fst (finalize_models models w) = models"
proof (induction models arbitrary: w)
  case Nil
  show ?case by simp
next
  case (Cons model rest)
  then show ?case
    using finalize_model_fixed [of model w] by (simp add: split_beta Let_def)
qed

text \<open>
  C9. On a state all of whose meshes have \<^verbatim>\<open>VAO\<close>, \<^verbatim>\<open>VBO\<close>, \<^verbatim>\<open>EBO\<close> and the program at
  zero, \<^verbatim>\<open>m_skr_gl_renderer_finalize\<close> returns the state as it was and leaves the error
  buffer untouched. A first teardown of any state \<open>st0\<close> produces such a state, on which
  a second teardown changes nothing.
\<close>

theorem finalize_idempotent:
  assumes "list_all model_zeroed (Models st)"
  shows "fst (m_skr_gl_renderer_finalize (Some st) w) = Some st
    \<and> SKR_LAST_ERROR (snd (m_skr_gl_renderer_finalize (Some st) w)) = SKR_LAST_ERROR w
    \<and> (\<exists>st'. fst (m_skr_gl_renderer_finalize (Some st0) w0) = Some st'
          \<and> list_all model_zeroed (Models st')
          \<and> fst (m_skr_gl_renderer_finalize (Some st') w1) = Some st')"
proof -
  have a: "fst (m_skr_gl_renderer_finalize (Some s) v) = Some s"
    if "list_all model_zeroed (Models s)" for s v
    using finalize_models_fixed [OF that, of v]
    by (simp add: m_skr_gl_renderer_finalize_def split_beta Let_def)
  have b: "SKR_LAST_ERROR (snd (m_skr_gl_renderer_finalize (Some st) w)) = SKR_LAST_ERROR w"
    by (simp add: m_skr_gl_renderer_finalize_def split_beta Let_def finalize_models_error)
  let ?st' = "st0\<lparr>Models := fst (finalize_models (Models st0) w0)\<rparr>"
  have c1: "fst (m_skr_gl_renderer_finalize (Some st0) w0) = Some ?st'"
    by (simp add: m_skr_gl_renderer_finalize_def split_beta Let_def)
  have c2: "list_all model_zeroed (Models ?st')"
    by (simp add: finalize_models_zeroes)
  show ?thesis using a [OF assms] b c1 c2 a [OF c2] by blast
qed

text \<open>The state after the teardown of a state with one live mesh.\<close>

theorem finalize_idempotent_witness:
  "list_all model_zeroed (Models torn_down_state)
   \<and> fst (m_skr_gl_renderer_finalize (Some torn_down_state) world0) = Some torn_down_state
   \<and> SKR_LAST_ERROR (snd (m_skr_gl_renderer_finalize (Some torn_down_state) world0))
       = SKR_LAST_ERROR world0
   \<and> fst (m_skr_gl_renderer_finalize (Some example_state) world0) = Some torn_down_state"
proof -
  have z: "list_all model_zeroed (Models torn_down_state)"
    by (simp add: torn_down_state_def model_zeroed_def mesh_zeroed_def example_mesh_def)
  have f: "fst (m_skr_gl_renderer_finalize (Some example_state) world0) = Some torn_down_state"
    by (simp add: m_skr_gl_renderer_finalize_def example_state_def torn_down_state_def
        finalize_model_def finalize_mesh_def example_mesh_def Let_def split_beta)
  show ?thesis
    using finalize_idempotent [OF z, of world0 example_state world0 world0] z f by simp
qed

section \<open>Properties of the camera\<close>

lemma clamp_pitch_cases: "clamp_pitch a = NaN \<or> in_pitch_range (clamp_pitch a)"
  by (cases a) (auto simp: clamp_pitch_def fgt_def in_pitch_range_def)

lemma clamp_pitch_NaN: "clamp_pitch a = NaN \<longleftrightarrow> a = NaN"
  by (cases a) (auto simp: clamp_pitch_def fgt_def)

lemma callback_pitch:
  "Pitch (m_skr_gl_glfw_mouse_callback fe cam xpos ypos)
     = clamp_pitch (unclamped_pitch fe cam ypos)"
  by (simp add: m_skr_gl_glfw_mouse_callback_def unclamped_pitch_def clamp_pitch_def Let_def)



lemma callback_front:
  "Front (m_skr_gl_glfw_mouse_callback fe cam xpos ypos)
     = glm_vec3_normalize_to fe
         (spherical_front fe (Yaw (m_skr_gl_glfw_mouse_callback fe cam xpos ypos))
            (Pitch (m_skr_gl_glfw_mouse_callback fe cam xpos ypos)))"
  unfolding m_skr_gl_glfw_mouse_callback_def Let_def spherical_front_def
  by (simp split del: if_split)

lemma callback_fields:
  "LastX (m_skr_gl_glfw_mouse_callback fe cam xpos ypos) = xpos"
  "LastY (m_skr_gl_glfw_mouse_callback fe cam xpos ypos) = ypos"
  "FirstMouse (m_skr_gl_glfw_mouse_callback fe cam xpos ypos) = False"
  "Sensitivity (m_skr_gl_glfw_mouse_callback fe cam xpos ypos) = Sensitivity cam"
  unfolding m_skr_gl_glfw_mouse_callback_def Let_def
  by (simp_all split del: if_split) (simp_all)

lemma callback_yaw:
  "Yaw (m_skr_gl_glfw_mouse_callback fe cam xpos ypos)
     = fadd fe (Yaw cam)
         (fmul fe (fsub fe xpos (if FirstMouse cam then xpos else LastX cam)) (Sensitivity cam))"
  unfolding m_skr_gl_glfw_mouse_callback_def Let_def
  by (simp split del: if_split) simp


lemma mouse_moves_snoc:
  "mouse_moves fe (positions @ [(xpos, ypos)]) cam
     = m_skr_gl_glfw_mouse_callback fe (mouse_moves fe positions cam) xpos ypos"
  by (simp add: mouse_moves_def)

text \<open>
  C5 (amended). After every call of the callback, so at the end of every non-empty
  sequence of cursor events, \<^verbatim>\<open>Pitch\<close> is NaN or lies in [-89, 89]: it is the sum that
  the callback computes, replaced by exactly 89 when it is above 89 and by exactly -89 when
  it is below -89, and left alone otherwise, which is also what happens to a NaN.
  \<^verbatim>\<open>Front\<close> is the normalisation of the spherical vector of the new \<^verbatim>\<open>Yaw\<close> and
  \<^verbatim>\<open>Pitch\<close>.
\<close>

theorem pitch_clamped_unless_nan:
  assumes "positions \<noteq> []"
  shows "(Pitch (mouse_moves fe positions cam) = NaN
          \<or> in_pitch_range (Pitch (mouse_moves fe positions cam)))
    \<and> Pitch (m_skr_gl_glfw_mouse_callback fe cam xpos ypos)
        = clamp_pitch (unclamped_pitch fe cam ypos)
    \<and> Front (m_skr_gl_glfw_mouse_callback fe cam xpos ypos)
        = glm_vec3_normalize_to fe
            (spherical_front fe (Yaw (m_skr_gl_glfw_mouse_callback fe cam xpos ypos))
               (Pitch (m_skr_gl_glfw_mouse_callback fe cam xpos ypos)))"
proof -
  obtain ps p where snoc: "positions = ps @ [p]"
    using assms by (cases positions rule: rev_cases) auto
  obtain x y where p: "p = (x, y)" by (cases p)
  have "Pitch (mouse_moves fe positions cam)
        = clamp_pitch (unclamped_pitch fe (mouse_moves fe ps cam) y)"
    unfolding snoc p mouse_moves_snoc by (rule callback_pitch)
  then have a: "Pitch (mouse_moves fe positions cam) = NaN
          \<or> in_pitch_range (Pitch (mouse_moves fe positions cam))"
    using clamp_pitch_cases [of "unclamped_pitch fe (mouse_moves fe ps cam) y"] by simp
  show ?thesis
    using a callback_pitch [of fe cam xpos ypos] callback_front [of fe cam xpos ypos] by blast
qed

lemma default_camera_fields:
  "FirstMouse SkrDefaultFPSCamera"
  "Pitch SkrDefaultFPSCamera = Fin 0"
  "Yaw SkrDefaultFPSCamera = Fin (- 90)"
  "Sensitivity SkrDefaultFPSCamera = Fin (13421773 / 134217728)"
  by (simp_all add: SkrDefaultFPSCamera_def)

lemma rnd_exact_floats: "rnd exact_floats = Fin"
  by (simp add: exact_floats_def)

text \<open>The default camera, the first event and then the cursor 2300 pixels higher.\<close>

theorem pitch_clamped_unless_nan_witness:
  "[(Fin 400, Fin 300), (Fin 400, Fin (- 2000))] \<noteq> []
   \<and> Pitch (mouse_moves exact_floats [(Fin 400, Fin 300), (Fin 400, Fin (- 2000))]
        SkrDefaultFPSCamera) = Fin 89"
proof -
  let ?c1 = "m_skr_gl_glfw_mouse_callback exact_floats SkrDefaultFPSCamera (Fin 400) (Fin 300)"
  have ne: "[(Fin 400, Fin 300), (Fin 400, Fin (- 2000 :: real))] \<noteq> []" by simp
  have m: "mouse_moves exact_floats [(Fin 400, Fin 300), (Fin 400, Fin (- 2000))] SkrDefaultFPSCamera
           = m_skr_gl_glfw_mouse_callback exact_floats ?c1 (Fin 400) (Fin (- 2000))"
    by (simp add: mouse_moves_def)
  have p1: "Pitch ?c1 = Fin 0"
    by (simp add: callback_pitch unclamped_pitch_def default_camera_fields fsub_def
        rnd_exact_floats clamp_pitch_def fgt_def)
  have p2: "unclamped_pitch exact_floats ?c1 (Fin (- 2000)) = Fin (2300 * (13421773 / 134217728))"
    by (simp add: unclamped_pitch_def callback_fields p1 default_camera_fields fsub_def
        rnd_exact_floats)
  have v: "clamp_pitch (unclamped_pitch exact_floats ?c1 (Fin (- 2000))) = Fin 89"
    unfolding p2 by (simp add: clamp_pitch_def fgt_def)
  show ?thesis
    using pitch_clamped_unless_nan [OF ne, where fe = exact_floats and cam = SkrDefaultFPSCamera
        and xpos = "Fin 400" and ypos = "Fin 300"]
    unfolding m callback_pitch v by simp
qed

text \<open>
  C5 as stated fails for a \<^verbatim>\<open>Sensitivity\<close> that is NaN: the sum is NaN, both comparisons
  are false and \<^verbatim>\<open>Pitch\<close> stays NaN.
\<close>

theorem pitch_not_clamped_counterexample:
  "Pitch (m_skr_gl_glfw_mouse_callback exact_floats (SkrDefaultFPSCamera\<lparr>Sensitivity := NaN\<rparr>)
      (Fin 400) (Fin 300)) = NaN
   \<and> \<not> in_pitch_range (Pitch (m_skr_gl_glfw_mouse_callback exact_floats
        (SkrDefaultFPSCamera\<lparr>Sensitivity := NaN\<rparr>) (Fin 400) (Fin 300)))"
proof -
  have "Pitch (m_skr_gl_glfw_mouse_callback exact_floats (SkrDefaultFPSCamera\<lparr>Sensitivity := NaN\<rparr>)
      (Fin 400) (Fin 300)) = NaN"
    by (simp add: callback_pitch unclamped_pitch_def default_camera_fields fsub_def
        rnd_exact_floats clamp_pitch_def fgt_def)
  then show ?thesis by (simp add: in_pitch_range_def)
qed


text \<open>
  C6 (amended). On a camera with \<^verbatim>\<open>FirstMouse\<close> set, the callback stores the cursor
  position, converted to \<^verbatim>\<open>float\<close>, in \<^verbatim>\<open>LastX\<close> and \<^verbatim>\<open>LastY\<close> and clears the flag.
  When the converted position and the sensitivity are finite and \<^verbatim>\<open>Pitch\<close> is in its
  range [-89, 89] (0 and the two angles being floats), \<^verbatim>\<open>Yaw\<close> and \<^verbatim>\<open>Pitch\<close> are left
  as they were.
\<close>

theorem first_mouse_move:
  assumes "FirstMouse cam"
  shows "LastX (glfw_cursor_pos_callback fe cam xposIn yposIn) = double_to_float fe xposIn
    \<and> LastY (glfw_cursor_pos_callback fe cam xposIn yposIn) = double_to_float fe yposIn
    \<and> \<not> FirstMouse (glfw_cursor_pos_callback fe cam xposIn yposIn)
    \<and> (double_to_float fe xposIn = Fin x \<and> double_to_float fe yposIn = Fin y
        \<and> Sensitivity cam = Fin s \<and> in_pitch_range (Pitch cam)
        \<and> is_float fe (Fin 0) \<and> is_float fe (Yaw cam) \<and> is_float fe (Pitch cam)
       \<longrightarrow> Yaw (glfw_cursor_pos_callback fe cam xposIn yposIn) = Yaw cam
         \<and> Pitch (glfw_cursor_pos_callback fe cam xposIn yposIn) = Pitch cam)"
proof -
  let ?cam' = "glfw_cursor_pos_callback fe cam xposIn yposIn"
  have a: "LastX ?cam' = double_to_float fe xposIn \<and> LastY ?cam' = double_to_float fe yposIn
    \<and> \<not> FirstMouse ?cam'"
    by (simp add: glfw_cursor_pos_callback_def Let_def callback_fields)
  have b: "Yaw ?cam' = Yaw cam \<and> Pitch ?cam' = Pitch cam"
    if h: "double_to_float fe xposIn = Fin x \<and> double_to_float fe yposIn = Fin y
        \<and> Sensitivity cam = Fin s \<and> in_pitch_range (Pitch cam)
        \<and> is_float fe (Fin 0) \<and> is_float fe (Yaw cam) \<and> is_float fe (Pitch cam)"
  proof -
    have z: "rnd fe 0 = Fin 0" using h by (simp add: is_float_def)
    obtain p where p: "Pitch cam = Fin p" "- 89 \<le> p" "p \<le> 89" "rnd fe p = Fin p"
      using h by (cases "Pitch cam") (auto simp: in_pitch_range_def is_float_def)
    have dx: "fmul fe (fsub fe (Fin x) (Fin x)) (Fin s) = Fin 0"
      and dy: "fmul fe (fsub fe (Fin y) (Fin y)) (Fin s) = Fin 0"
      using z by (simp_all add: fsub_def)
    have yaw: "fadd fe (Yaw cam) (Fin 0) = Yaw cam"
      using h by (cases "Yaw cam") (simp_all add: is_float_def)
    have pitch: "clamp_pitch (fadd fe (Pitch cam) (Fin 0)) = Pitch cam"
      using p by (simp add: clamp_pitch_def fgt_def)
    show ?thesis
      using h assms dx dy yaw pitch
      by (simp add: glfw_cursor_pos_callback_def Let_def callback_yaw callback_pitch
          unclamped_pitch_def)
  qed
  show ?thesis using a b by blast
qed

text \<open>The first cursor event of the default camera.\<close>

theorem first_mouse_move_witness:
  "FirstMouse SkrDefaultFPSCamera
   \<and> in_pitch_range (Pitch SkrDefaultFPSCamera)
   \<and> LastX (glfw_cursor_pos_callback exact_floats SkrDefaultFPSCamera (Fin 512) (Fin 384)) = Fin 512
   \<and> LastY (glfw_cursor_pos_callback exact_floats SkrDefaultFPSCamera (Fin 512) (Fin 384)) = Fin 384
   \<and> \<not> FirstMouse (glfw_cursor_pos_callback exact_floats SkrDefaultFPSCamera (Fin 512) (Fin 384))
   \<and> Yaw (glfw_cursor_pos_callback exact_floats SkrDefaultFPSCamera (Fin 512) (Fin 384)) = Fin (- 90)
   \<and> Pitch (glfw_cursor_pos_callback exact_floats SkrDefaultFPSCamera (Fin 512) (Fin 384)) = Fin 0"
proof -
  have f: "FirstMouse SkrDefaultFPSCamera" by (rule default_camera_fields)
  have r: "in_pitch_range (Pitch SkrDefaultFPSCamera)"
    by (simp add: default_camera_fields in_pitch_range_def)
  have h: "double_to_float exact_floats (Fin 512) = Fin 512
        \<and> double_to_float exact_floats (Fin 384) = Fin 384
        \<and> Sensitivity SkrDefaultFPSCamera = Fin (13421773 / 134217728)
        \<and> in_pitch_range (Pitch SkrDefaultFPSCamera)
        \<and> is_float exact_floats (Fin 0) \<and> is_float exact_floats (Yaw SkrDefaultFPSCamera)
        \<and> is_float exact_floats (Pitch SkrDefaultFPSCamera)"
    using r by (simp add: default_camera_fields rnd_exact_floats double_to_float_def is_float_def)
  show ?thesis
    using first_mouse_move [OF f, where fe = exact_floats and xposIn = "Fin 512"
        and yposIn = "Fin 384" and x = 512 and y = 384 and s = "13421773 / 134217728"]
      f r h
    by (simp add: default_camera_fields)
qed

text \<open>
  C6 as stated fails for a \<^verbatim>\<open>Sensitivity\<close> that is NaN: the delta of the first call is
  0 times NaN, and the default camera, whose \<^verbatim>\<open>Yaw\<close> is -90 and \<^verbatim>\<open>Pitch\<close> 0, has both
  at NaN after it.
\<close>

theorem first_mouse_move_counterexample:
  "FirstMouse (SkrDefaultFPSCamera\<lparr>Sensitivity := NaN\<rparr>)
   \<and> in_pitch_range (Pitch (SkrDefaultFPSCamera\<lparr>Sensitivity := NaN\<rparr>))
   \<and> Yaw (SkrDefaultFPSCamera\<lparr>Sensitivity := NaN\<rparr>) = Fin (- 90)
   \<and> Pitch (SkrDefaultFPSCamera\<lparr>Sensitivity := NaN\<rparr>) = Fin 0
   \<and> Yaw (glfw_cursor_pos_callback exact_floats (SkrDefaultFPSCamera\<lparr>Sensitivity := NaN\<rparr>)
        (Fin 400) (Fin 300)) = NaN
   \<and> Pitch (glfw_cursor_pos_callback exact_floats (SkrDefaultFPSCamera\<lparr>Sensitivity := NaN\<rparr>)
        (Fin 400) (Fin 300)) = NaN"
  by (simp add: glfw_cursor_pos_callback_def Let_def callback_yaw callback_pitch
      unclamped_pitch_def default_camera_fields fsub_def rnd_exact_floats clamp_pitch_def
      fgt_def in_pitch_range_def double_to_float_def)

section \<open>Properties of shader compilation\<close>

lemma calls_delete_all [simp]: "calls (delete_all shaders w) = calls w @ map glDeleteShader shaders"
  unfolding delete_all_def by (induction shaders arbitrary: w) simp_all

lemma names_delete_all [simp]: "names (delete_all shaders w) = names w"
  unfolding delete_all_def by (induction shaders arbitrary: w) simp_all

lemma error_delete_all [simp]: "SKR_LAST_ERROR (delete_all shaders w) = SKR_LAST_ERROR w"
  unfolding delete_all_def by (induction shaders arbitrary: w) (simp_all add: log_call_def)

lemma check_shader:
  "c_str type \<noteq> ''prog'' \<Longrightarrow>
   fst (m_skr_gl_check_compile_errors env shader type w) = (if status w shader then 1 else 0)
   \<and> calls (snd (m_skr_gl_check_compile_errors env shader type w)) = calls w
   \<and> names (snd (m_skr_gl_check_compile_errors env shader type w)) = names w"
  by (simp add: m_skr_gl_check_compile_errors_def)

lemma type_str_not_prog: "c_str (type_str type) \<noteq> ''prog''"
  by (simp add: type_str_def c_str_def NUL_def)

lemma create_shader_result:
  "fst (m_skr_gl_create_shader env type src w)
     = (if compile_ok env type (c_str src) then Suc (names w) else 0)"
  "calls (snd (m_skr_gl_create_shader env type src w))
     = calls w @ compile_calls type src (Suc (names w)) (compile_ok env type (c_str src))"
  "names (snd (m_skr_gl_create_shader env type src w)) = Suc (names w)"
  using check_shader [OF type_str_not_prog, of env "Suc (names w)" type]
  by (simp_all add: m_skr_gl_create_shader_def gl_create_shader_def gl_compile_shader_def
      compile_calls_def Let_def split_beta)


lemma read_file_result:
  "fst (m_skr_read_file env path w)
     = (case file_contents env (c_str path) of
          None \<Rightarrow> None
        | Some bytes \<Rightarrow> if malloc_ok env (length bytes + 1) then Some bytes else None)"
  "calls (snd (m_skr_read_file env path w)) = calls w @ [fopen (c_str path)]"
  "names (snd (m_skr_read_file env path w)) = names w"
  by (simp_all add: m_skr_read_file_def Let_def split: option.splits)

lemma create_shader_from_file_unreadable:
  assumes "fst (m_skr_read_file env path w) = None"
  shows "m_skr_gl_create_shader_from_file env type path w = (0, snd (m_skr_read_file env path w))"
  using assms by (simp add: m_skr_gl_create_shader_from_file_def split_beta)

lemma create_shader_from_file_readable:
  assumes "fst (m_skr_read_file env path w) = Some bytes"
  shows "m_skr_gl_create_shader_from_file env type path w =
         (fst (m_skr_gl_create_shader env type bytes (snd (m_skr_read_file env path w))),
          last_error_clear (snd (m_skr_gl_create_shader env type bytes (snd (m_skr_read_file env path w)))))"
  using assms by (simp add: m_skr_gl_create_shader_from_file_def split_beta)

lemma loop_step_ok:
  assumes "shader_ok env d"
  shows "\<exists>w1. compile_loop env (d # rest) shaders w
               = compile_loop env rest (shaders @ [Suc (names w)]) w1
             \<and> calls w1 = calls w @ attempt_calls env d (Suc (names w))
             \<and> names w1 = Suc (names w)"
proof (cases "Source d")
  case (Some src)
  then have ok: "compile_ok env (Type d) (c_str src)"
    using assms by (simp add: shader_ok_def)
  show ?thesis
    using Some ok
    by (intro exI [of _ "snd (m_skr_gl_create_shader env (Type d) src w)"])
      (simp add: split_beta create_shader_result attempt_calls_def)
next
  case None
  then obtain path bytes where p: "Path d = Some path"
    and f: "file_contents env (c_str path) = Some bytes"
    and m: "malloc_ok env (length bytes + 1)"
    and ok: "compile_ok env (Type d) (c_str bytes)"
    using assms by (auto simp: shader_ok_def split: option.splits)
  have r: "fst (m_skr_read_file env path w) = Some bytes"
    using f m by (simp add: read_file_result)
  show ?thesis
    using None p f m ok
    by (intro exI [of _ "snd (m_skr_gl_create_shader_from_file env (Type d) path w)"])
      (simp add: create_shader_from_file_readable [OF r] create_shader_result read_file_result
        attempt_calls_def)
qed

lemma loop_step_fail:
  assumes "\<not> shader_ok env s"
  shows "fst (compile_loop env (s # rest) shaders w) = None
       \<and> calls (snd (compile_loop env (s # rest) shaders w))
           = calls w @ attempt_calls env s (Suc (names w)) @ map glDeleteShader shaders"
proof (cases "Source s")
  case (Some src)
  then have ok: "\<not> compile_ok env (Type s) (c_str src)"
    using assms by (simp add: shader_ok_def)
  show ?thesis
    using Some ok by (simp add: split_beta create_shader_result attempt_calls_def)
next
  case None
  show ?thesis
  proof (cases "Path s")
    case no_path: None
    show ?thesis using None no_path by (simp add: attempt_calls_def)
  next
    case (Some path)
    show ?thesis
    proof (cases "fst (m_skr_read_file env path w)")
      case unreadable: None
      then have "attempt_calls env s (Suc (names w)) = [fopen (c_str path)]"
        using None Some
        by (auto simp: attempt_calls_def read_file_result split: option.splits if_splits)
      then show ?thesis
        using None Some
        by (simp add: create_shader_from_file_unreadable [OF unreadable] read_file_result)
    next
      case readable: (Some bytes)
      then have f: "file_contents env (c_str path) = Some bytes"
        and m: "malloc_ok env (length bytes + 1)"
        by (auto simp: read_file_result split: option.splits if_splits)
      then have ok: "\<not> compile_ok env (Type s) (c_str bytes)"
        using assms None Some by (simp add: shader_ok_def)
      show ?thesis
        using None Some f m ok
        by (simp add: create_shader_from_file_readable [OF readable] create_shader_result
            read_file_result attempt_calls_def)
    qed
  qed
qed

lemma compile_loop_fails:
  assumes "list_all (shader_ok env) pre" and "\<not> shader_ok env s"
  shows "fst (compile_loop env (pre @ s # post) shaders w) = None
       \<and> calls (snd (compile_loop env (pre @ s # post) shaders w))
           = calls w
             @ concat (map (\<lambda>(n, d). attempt_calls env d (Suc n)) (enumerate (names w) pre))
             @ attempt_calls env s (Suc (names w + length pre))
             @ map glDeleteShader (shaders @ [Suc (names w) ..< Suc (names w + length pre)])"
  using assms(1)
proof (induction pre arbitrary: shaders w)
  case Nil
  show ?case using loop_step_fail [OF assms(2), of post shaders w] by simp
next
  case (Cons d pre)
  then have d: "shader_ok env d" and pre: "list_all (shader_ok env) pre" by simp_all
  obtain w1 where step: "compile_loop env (d # (pre @ s # post)) shaders w
               = compile_loop env (pre @ s # post) (shaders @ [Suc (names w)]) w1"
    and c1: "calls w1 = calls w @ attempt_calls env d (Suc (names w))"
    and n1: "names w1 = Suc (names w)"
    using loop_step_ok [OF d] by blast
  have lhs: "compile_loop env ((d # pre) @ s # post) shaders w
             = compile_loop env (pre @ s # post) (shaders @ [Suc (names w)]) w1"
    using step by (simp only: append_Cons)
  have upt: "[Suc (names w) ..< Suc (Suc (names w + length pre))]
          = Suc (names w) # [Suc (Suc (names w)) ..< Suc (Suc (names w + length pre))]"
    by (rule upt_conv_Cons) simp
  show ?case
    unfolding lhs
    using Cons.IH [OF pre, of "shaders @ [Suc (names w)]" w1]
    by (simp add: c1 n1 upt del: upt_Suc)
qed

text \<open>
  C1. When the descriptors before index \<open>k\<close> resolve and compile, the one at \<open>k\<close> does
  not, and the array of names could be allocated, \<^verbatim>\<open>m_skr_gl_create_program_from_shaders\<close>
  returns 0 and the backend calls it makes are, in order: the compilation of the
  descriptors 0 to \<open>k - 1\<close>, whose objects get the next \<open>k\<close> names; the attempt on
  descriptor \<open>k\<close> (which deletes its own object when it got as far as compiling);
  \<^verbatim>\<open>glDeleteShader\<close> on the \<open>k\<close> names, in index order. Nothing is called for a descriptor
  after \<open>k\<close>.
\<close>

theorem create_program_fail_fast:
  assumes "k < length input"
    and "\<forall>i<k. shader_ok env (input ! i)"
    and "\<not> shader_ok env (input ! k)"
    and "malloc_ok env (4 * length input)"
  shows "fst (m_skr_gl_create_program_from_shaders env (Some input) w) = 0
    \<and> calls (snd (m_skr_gl_create_program_from_shaders env (Some input) w))
        = calls w
          @ concat (map (\<lambda>(n, d). attempt_calls env d (Suc n)) (enumerate (names w) (take k input)))
          @ attempt_calls env (input ! k) (Suc (names w + k))
          @ map glDeleteShader [Suc (names w) ..< Suc (names w + k)]"
proof -
  have split: "input = take k input @ input ! k # drop (Suc k) input"
    using assms(1) by (rule id_take_nth_drop)
  have pre: "list_all (shader_ok env) (take k input)"
    using assms(1,2) by (simp add: list_all_length)
  have len: "length (take k input) = k"
    using assms(1) by simp
  have loop: "fst (compile_loop env input [] w) = None
       \<and> calls (snd (compile_loop env input [] w))
           = calls w
             @ concat (map (\<lambda>(n, d). attempt_calls env d (Suc n)) (enumerate (names w) (take k input)))
             @ attempt_calls env (input ! k) (Suc (names w + k))
             @ map glDeleteShader [Suc (names w) ..< Suc (names w + k)]"
    using compile_loop_fails [OF pre assms(3), of "drop (Suc k) input" "[]" w]
    unfolding split [symmetric] len by simp
  have ne: "input \<noteq> []" using assms(1) by auto
  show ?thesis
    using loop ne assms(4)
    by (simp add: m_skr_gl_create_program_from_shaders_def split_beta split: option.splits)
qed


text \<open>An inline vertex shader, then a fragment shader whose file does not compile.\<close>

theorem create_program_fail_fast_witness:
  "(1::nat) < length [vert_inline, frag_bad_file, geom_absent]
   \<and> shader_ok example_backend vert_inline
   \<and> \<not> shader_ok example_backend frag_bad_file
   \<and> fst (m_skr_gl_create_program_from_shaders example_backend
            (Some [vert_inline, frag_bad_file, geom_absent]) world0) = 0
   \<and> calls (snd (m_skr_gl_create_program_from_shaders example_backend
            (Some [vert_inline, frag_bad_file, geom_absent]) world0))
      = [glCreateShader GL_VERTEX_SHADER 1, glShaderSource 1 ''void main() {}'',
         glCompileShader 1,
         fopen ''bad.frag'', glCreateShader GL_FRAGMENT_SHADER 2,
         glShaderSource 2 ''void main() {'', glCompileShader 2, glDeleteShader 2,
         glDeleteShader 1]"
proof -
  have k: "(1::nat) < length [vert_inline, frag_bad_file, geom_absent]" by simp
  have ok: "shader_ok example_backend vert_inline"
    by (simp add: shader_ok_def vert_inline_def example_backend_def c_str_def NUL_def)
  have bad: "\<not> shader_ok example_backend frag_bad_file"
    by (simp add: shader_ok_def frag_bad_file_def example_backend_def c_str_def NUL_def)
  have pre: "\<forall>i<1. shader_ok example_backend ([vert_inline, frag_bad_file, geom_absent] ! i)"
    using ok by simp
  have bad': "\<not> shader_ok example_backend ([vert_inline, frag_bad_file, geom_absent] ! 1)"
    using bad by simp
  have m: "malloc_ok example_backend (4 * length [vert_inline, frag_bad_file, geom_absent])"
    by (simp add: example_backend_def)
  have a0: "attempt_calls example_backend vert_inline h
            = [glCreateShader GL_VERTEX_SHADER h, glShaderSource h ''void main() {}'',
               glCompileShader h]" for h
    by (simp add: attempt_calls_def compile_calls_def vert_inline_def example_backend_def
        c_str_def NUL_def)
  have a1: "attempt_calls example_backend frag_bad_file h
            = [fopen ''bad.frag'', glCreateShader GL_FRAGMENT_SHADER h,
               glShaderSource h ''void main() {'', glCompileShader h, glDeleteShader h]" for h
    by (simp add: attempt_calls_def compile_calls_def frag_bad_file_def example_backend_def
        c_str_def NUL_def)
  have w0: "calls world0 = []" "names world0 = 0"
    by (simp_all add: world0_def)
  show ?thesis
    using create_program_fail_fast [OF k pre bad' m, of world0] k ok bad
    by (simp add: w0 a0 a1 enumerate_simps)
qed

lemma set_with_meta_nonempty: "m_skr_last_error_set_with_meta file line func msg buf \<noteq> []"
proof (cases "length (meta_prefix file line func) < SKR_LAST_ERROR_SIZE")
  case True
  show ?thesis unfolding set_with_meta_fits [OF True] by (simp add: store_bytes_def)
next
  case False
  then have long: "SKR_LAST_ERROR_SIZE \<le> length (meta_prefix file line func)" by simp
  show ?thesis unfolding set_with_meta_too_long [OF long] by (simp add: store_bytes_def)
qed

lemma set_with_meta_not_OK:
  assumes "msg \<noteq> []" and "hd msg \<noteq> NUL"
  shows "\<not> SKR_OK (m_skr_last_error_set_with_meta file line func msg buf)"
proof (cases "length (meta_prefix file line func) < SKR_LAST_ERROR_SIZE")
  case True
  then show ?thesis by (rule not_OK_set_fits)
next
  case False
  then have long: "SKR_LAST_ERROR_SIZE \<le> length (meta_prefix file line func)" by simp
  have "1 < SKR_LAST_ERROR_SIZE" by (simp add: SKR_LAST_ERROR_SIZE_def)
  then have "take (SKR_LAST_ERROR_SIZE - 1) msg \<noteq> []
             \<and> hd (take (SKR_LAST_ERROR_SIZE - 1) msg) \<noteq> NUL"
    using assms by (cases msg) (auto simp: take_Cons')
  then show ?thesis
    unfolding set_with_meta_too_long [OF long] SKR_OK_store_0 by blast
qed

lemma create_shader_failure_error:
  assumes "\<not> compile_ok env type (c_str src)"
  shows "SKR_LAST_ERROR (snd (m_skr_gl_create_shader env type src w)) \<noteq> []"
  using assms type_str_not_prog [of type]
  by (simp add: m_skr_gl_create_shader_def gl_create_shader_def gl_compile_shader_def
      m_skr_gl_check_compile_errors_def m_skr_last_error_set_def Let_def log_call_def
      set_with_meta_nonempty)

lemma create_shader_from_file_compile_failure:
  assumes "file_contents env (c_str path) = Some bytes"
    and "malloc_ok env (length bytes + 1)"
    and "\<not> compile_ok env type (c_str bytes)"
  shows "fst (m_skr_gl_create_shader_from_file env type path w) = 0
       \<and> SKR_OK (SKR_LAST_ERROR (snd (m_skr_gl_create_shader_from_file env type path w)))"
proof -
  have r: "fst (m_skr_read_file env path w) = Some bytes"
    using assms(1,2) by (simp add: read_file_result)
  show ?thesis
    unfolding create_shader_from_file_readable [OF r]
    using assms(3) create_shader_failure_error [OF assms(3)]
    by (simp add: create_shader_result last_error_clear_def SKR_OK_clear)
qed

text \<open>
  C3 fails on the code: \<^verbatim>\<open>m_skr_gl_create_shader_from_file\<close> clears the error buffer
  after \<^verbatim>\<open>m_skr_gl_create_shader\<close> whatever that returned. For a file that is read but
  does not compile it returns 0 with \<open>SKR_OK\<close> true.
\<close>

theorem create_shader_from_file_clears_compile_error:
  "fst (m_skr_gl_create_shader_from_file example_backend GL_FRAGMENT_SHADER ''bad.frag'' world0) = 0
   \<and> SKR_OK (SKR_LAST_ERROR
        (snd (m_skr_gl_create_shader_from_file example_backend GL_FRAGMENT_SHADER ''bad.frag''
               world0)))"
  by (rule create_shader_from_file_compile_failure [where bytes = "''void main() {''"])
    (simp_all add: example_backend_def c_str_def NUL_def)

text \<open>
  C7 fails on the code, through the same clearing: a batch whose first descriptor is a
  file that does not compile and whose second has neither source nor path makes
  \<^verbatim>\<open>m_skr_gl_create_program_from_shaders\<close> return 0 with \<open>SKR_OK\<close> true.
\<close>

theorem create_program_absent_source_empty_error:
  "fst (m_skr_gl_create_program_from_shaders example_backend
          (Some [frag_bad_file, geom_absent]) world0) = 0
   \<and> SKR_OK (SKR_LAST_ERROR
        (snd (m_skr_gl_create_program_from_shaders example_backend
               (Some [frag_bad_file, geom_absent]) world0)))"
proof -
  have f: "fst (m_skr_gl_create_shader_from_file example_backend GL_FRAGMENT_SHADER ''bad.frag''
             world0) = 0
       \<and> SKR_OK (SKR_LAST_ERROR (snd (m_skr_gl_create_shader_from_file example_backend
             GL_FRAGMENT_SHADER ''bad.frag'' world0)))"
    by (rule create_shader_from_file_compile_failure [where bytes = "''void main() {''"])
      (simp_all add: example_backend_def c_str_def NUL_def)
  have m: "malloc_ok example_backend n" for n by (simp add: example_backend_def)
  show ?thesis
    using f by (simp add: m_skr_gl_create_program_from_shaders_def frag_bad_file_def m split_beta)
qed

lemma opened_append [simp]: "opened (xs @ ys) = opened xs @ opened ys"
  by (induction xs rule: opened.induct) simp_all

lemma opened_deletes [simp]: "opened (map glDeleteShader hs) = []"
  by (induction hs) simp_all

lemma opened_compile_calls [simp]: "opened (compile_calls type src h ok) = []"
  by (simp add: compile_calls_def)

lemma opened_attempt_calls:
  "set (opened (attempt_calls env d h)) \<subseteq> set (sourceless_paths [d])"
  by (auto simp: attempt_calls_def sourceless_paths_def split: option.splits)

lemma sourceless_paths_Cons:
  "sourceless_paths (d # ds) = sourceless_paths [d] @ sourceless_paths ds"
  by (simp add: sourceless_paths_def)

lemma compile_loop_opened:
  "set (opened (calls (snd (compile_loop env ds shaders w))))
     \<subseteq> set (opened (calls w)) \<union> set (sourceless_paths ds)"
proof (induction ds arbitrary: shaders w)
  case Nil
  show ?case by simp
next
  case (Cons d ds)
  show ?case
  proof (cases "shader_ok env d")
    case True
    obtain w1 where step: "compile_loop env (d # ds) shaders w
               = compile_loop env ds (shaders @ [Suc (names w)]) w1"
      and c1: "calls w1 = calls w @ attempt_calls env d (Suc (names w))"
      using loop_step_ok [OF True] by blast
    show ?thesis
      unfolding step
      using Cons.IH [of "shaders @ [Suc (names w)]" w1] opened_attempt_calls [of env d "Suc (names w)"]
      by (auto simp: c1 sourceless_paths_Cons [of d ds])
  next
    case False
    show ?thesis
      using loop_step_fail [OF False, of ds shaders w] opened_attempt_calls [of env d "Suc (names w)"]
      by (auto simp: sourceless_paths_Cons [of d ds])
  qed
qed

lemma calls_attach_all:
  "calls (attach_all program shaders w) = calls w @ map (glAttachShader program) shaders"
  unfolding attach_all_def by (induction shaders arbitrary: w) simp_all

lemma opened_attach [simp]: "opened (map (glAttachShader program) shaders) = []"
  by (induction shaders) simp_all

lemma opened_detach_delete_all:
  "opened (calls (detach_delete_all program shaders w)) = opened (calls w)"
  unfolding detach_delete_all_def by (induction shaders arbitrary: w) simp_all

lemma create_program_opened:
  "opened (calls (snd (m_skr_gl_create_program env shaders w))) = opened (calls w)"
  by (simp add: m_skr_gl_create_program_def gl_create_program_def gl_link_program_def
      m_skr_gl_check_compile_errors_def Let_def split_beta calls_attach_all
      opened_detach_delete_all)

lemma compile_loop_source_only:
  "compile_loop env (map source_only ds) shaders w = compile_loop env ds shaders w"
  by (induction ds arbitrary: shaders w)
    (simp_all add: source_only_def split_beta split: option.splits)

lemma compile_loop_extends:
  "\<exists>cs. calls (snd (compile_loop env ds shaders w)) = calls w @ cs"
proof (induction ds arbitrary: shaders w)
  case Nil
  show ?case by simp
next
  case (Cons d ds)
  show ?case
  proof (cases "shader_ok env d")
    case True
    obtain w1 where step: "compile_loop env (d # ds) shaders w
               = compile_loop env ds (shaders @ [Suc (names w)]) w1"
      and c1: "calls w1 = calls w @ attempt_calls env d (Suc (names w))"
      using loop_step_ok [OF True] by blast
    obtain cs where "calls (snd (compile_loop env ds (shaders @ [Suc (names w)]) w1)) = calls w1 @ cs"
      using Cons.IH by blast
    then show ?thesis unfolding step c1 by simp
  next
    case False
    show ?thesis using loop_step_fail [OF False, of ds shaders w] by simp
  qed
qed

lemma calls_detach_delete_all:
  "calls (detach_delete_all program shaders w)
     = calls w @ concat (map (\<lambda>sh. [glDetachShader program sh, glDeleteShader sh]) shaders)"
  unfolding detach_delete_all_def by (induction shaders arbitrary: w) simp_all

lemma create_program_extends:
  "\<exists>cs. calls (snd (m_skr_gl_create_program env shaders w)) = calls w @ cs"
  by (simp add: m_skr_gl_create_program_def gl_create_program_def gl_link_program_def
      m_skr_gl_check_compile_errors_def Let_def split_beta calls_attach_all
      calls_detach_delete_all)

lemma create_program_from_shaders_extends:
  assumes "calls (snd (compile_loop env input [] w)) = calls w @ cs"
    and "input \<noteq> []" and "malloc_ok env (4 * length input)"
  shows "\<exists>rest. calls (snd (m_skr_gl_create_program_from_shaders env (Some input) w))
                = calls w @ cs @ rest"
proof (cases "fst (compile_loop env input [] w)")
  case None
  then show ?thesis
    using assms by (simp add: m_skr_gl_create_program_from_shaders_def split_beta)
next
  case (Some shaders)
  obtain rest where "calls (snd (m_skr_gl_create_program env shaders (snd (compile_loop env input [] w))))
        = calls (snd (compile_loop env input [] w)) @ rest"
    using create_program_extends by blast
  then show ?thesis
    using Some assms by (simp add: m_skr_gl_create_program_from_shaders_def split_beta)
qed

lemma compile_loop_compiles_source:
  assumes "list_all (shader_ok env) pre" and "Source d = Some src"
  shows "\<exists>rest. calls (snd (compile_loop env (pre @ d # post) shaders w))
           = calls w
             @ concat (map (\<lambda>(n, d). attempt_calls env d (Suc n)) (enumerate (names w) pre))
             @ [glCreateShader (Type d) (Suc (names w + length pre)),
                glShaderSource (Suc (names w + length pre)) (c_str src),
                glCompileShader (Suc (names w + length pre))]
             @ rest"
  using assms(1)
proof (induction pre arbitrary: shaders w)
  case Nil
  have att: "\<exists>tl. attempt_calls env d (Suc (names w))
             = [glCreateShader (Type d) (Suc (names w)), glShaderSource (Suc (names w)) (c_str src),
                glCompileShader (Suc (names w))] @ tl"
    using assms(2) by (simp add: attempt_calls_def compile_calls_def)
  then obtain tl where tl: "attempt_calls env d (Suc (names w))
             = [glCreateShader (Type d) (Suc (names w)), glShaderSource (Suc (names w)) (c_str src),
                glCompileShader (Suc (names w))] @ tl" by blast
  show ?case
  proof (cases "shader_ok env d")
    case True
    obtain w1 where step: "compile_loop env (d # post) shaders w
               = compile_loop env post (shaders @ [Suc (names w)]) w1"
      and c1: "calls w1 = calls w @ attempt_calls env d (Suc (names w))"
      using loop_step_ok [OF True] by blast
    obtain cs where "calls (snd (compile_loop env post (shaders @ [Suc (names w)]) w1)) = calls w1 @ cs"
      using compile_loop_extends by blast
    then show ?thesis using step c1 tl by simp
  next
    case False
    show ?thesis using loop_step_fail [OF False, of post shaders w] tl by simp
  qed
next
  case (Cons p pre)
  then have p: "shader_ok env p" and pre: "list_all (shader_ok env) pre" by simp_all
  obtain w1 where step: "compile_loop env (p # (pre @ d # post)) shaders w
               = compile_loop env (pre @ d # post) (shaders @ [Suc (names w)]) w1"
    and c1: "calls w1 = calls w @ attempt_calls env p (Suc (names w))"
    and n1: "names w1 = Suc (names w)"
    using loop_step_ok [OF p] by blast
  have lhs: "compile_loop env ((p # pre) @ d # post) shaders w
             = compile_loop env (pre @ d # post) (shaders @ [Suc (names w)]) w1"
    using step by (simp only: append_Cons)
  show ?case
    unfolding lhs
    using Cons.IH [OF pre, of "shaders @ [Suc (names w)]" w1]
    by (simp add: c1 n1)
qed

text \<open>
  C8. A descriptor with a source is compiled from that source: when the descriptors
  before it resolve and compile and the array of names could be allocated, the calls of
  \<^verbatim>\<open>m_skr_gl_create_program_from_shaders\<close> are those for the descriptors before it and
  then \<^verbatim>\<open>glCreateShader\<close>, \<^verbatim>\<open>glShaderSource\<close> with the source and \<^verbatim>\<open>glCompileShader\<close>
  on the next name, with no file opened in between. Its path plays no part: erasing the
  path of every descriptor that has a source gives the same result, the same error buffer
  and the same backend calls, and every file that is opened is the path of a descriptor
  without a source.
\<close>

theorem source_takes_precedence:
  "(list_all (shader_ok env) pre \<and> Source d = Some src
      \<and> malloc_ok env (4 * length (pre @ d # post))
    \<longrightarrow> (\<exists>rest. calls (snd (m_skr_gl_create_program_from_shaders env (Some (pre @ d # post)) w))
           = calls w
             @ concat (map (\<lambda>(n, d). attempt_calls env d (Suc n)) (enumerate (names w) pre))
             @ [glCreateShader (Type d) (Suc (names w + length pre)),
                glShaderSource (Suc (names w + length pre)) (c_str src),
                glCompileShader (Suc (names w + length pre))]
             @ rest))
   \<and> m_skr_gl_create_program_from_shaders env (Some (map source_only input)) w
       = m_skr_gl_create_program_from_shaders env (Some input) w
   \<and> set (opened (calls (snd (m_skr_gl_create_program_from_shaders env (Some input) w))))
       \<subseteq> set (opened (calls w)) \<union> set (sourceless_paths input)"
proof -
  have c: "\<exists>rest. calls (snd (m_skr_gl_create_program_from_shaders env (Some (pre @ d # post)) w))
           = calls w
             @ concat (map (\<lambda>(n, d). attempt_calls env d (Suc n)) (enumerate (names w) pre))
             @ [glCreateShader (Type d) (Suc (names w + length pre)),
                glShaderSource (Suc (names w + length pre)) (c_str src),
                glCompileShader (Suc (names w + length pre))]
             @ rest"
    if h: "list_all (shader_ok env) pre \<and> Source d = Some src
      \<and> malloc_ok env (4 * length (pre @ d # post))"
  proof -
    obtain r1 where r1: "calls (snd (compile_loop env (pre @ d # post) [] w))
           = calls w
             @ (concat (map (\<lambda>(n, d). attempt_calls env d (Suc n)) (enumerate (names w) pre))
             @ [glCreateShader (Type d) (Suc (names w + length pre)),
                glShaderSource (Suc (names w + length pre)) (c_str src),
                glCompileShader (Suc (names w + length pre))]
             @ r1)"
      using compile_loop_compiles_source [of env pre d src post "[]" w] h by auto
    have ne: "pre @ d # post \<noteq> []" by simp
    obtain r2 where "calls (snd (m_skr_gl_create_program_from_shaders env (Some (pre @ d # post)) w))
           = calls w
             @ (concat (map (\<lambda>(n, d). attempt_calls env d (Suc n)) (enumerate (names w) pre))
             @ [glCreateShader (Type d) (Suc (names w + length pre)),
                glShaderSource (Suc (names w + length pre)) (c_str src),
                glCompileShader (Suc (names w + length pre))]
             @ r1) @ r2"
      using create_program_from_shaders_extends [OF r1 ne] h by blast
    then show ?thesis by (intro exI [of _ "r1 @ r2"]) simp
  qed
  have a: "m_skr_gl_create_program_from_shaders env (Some (map source_only input)) w
     = m_skr_gl_create_program_from_shaders env (Some input) w"
    by (simp add: m_skr_gl_create_program_from_shaders_def compile_loop_source_only)
  have b: "set (opened (calls (snd (m_skr_gl_create_program_from_shaders env (Some input) w))))
       \<subseteq> set (opened (calls w)) \<union> set (sourceless_paths input)"
    using compile_loop_opened [of env input "[]" w]
    by (auto simp: m_skr_gl_create_program_from_shaders_def split_beta create_program_opened
        split: option.splits)
  show ?thesis using a b c by blast
qed

text \<open>
  An inline vertex shader, then a fragment shader with a source and the path of a file
  that does not compile.
\<close>

theorem source_takes_precedence_witness:
  "shader_ok example_backend vert_inline
   \<and> Source frag_both = Some ''void main() {}'' \<and> Path frag_both = Some ''bad.frag''
   \<and> take 6 (calls (snd (m_skr_gl_create_program_from_shaders example_backend
         (Some [vert_inline, frag_both]) world0)))
      = [glCreateShader GL_VERTEX_SHADER 1, glShaderSource 1 ''void main() {}'', glCompileShader 1,
         glCreateShader GL_FRAGMENT_SHADER 2, glShaderSource 2 ''void main() {}'',
         glCompileShader 2]
   \<and> m_skr_gl_create_program_from_shaders example_backend (Some [vert_inline, frag_both]) world0
     = m_skr_gl_create_program_from_shaders example_backend
         (Some [vert_inline, frag_both\<lparr>Path := None\<rparr>]) world0
   \<and> opened (calls (snd (m_skr_gl_create_program_from_shaders example_backend
         (Some [vert_inline, frag_both]) world0))) = []"
proof -
  let ?R = "m_skr_gl_create_program_from_shaders example_backend (Some [vert_inline, frag_both]) world0"
  have ok: "shader_ok example_backend vert_inline"
    by (simp add: shader_ok_def vert_inline_def example_backend_def c_str_def NUL_def)
  have src: "Source frag_both = Some ''void main() {}''" "Path frag_both = Some ''bad.frag''"
    "Type frag_both = GL_FRAGMENT_SHADER"
    by (simp_all add: frag_both_def)
  have cs: "c_str ''void main() {}'' = ''void main() {}''"
    by (simp add: c_str_def NUL_def)
  have mal: "malloc_ok example_backend n" for n by (simp add: example_backend_def)
  have a0: "attempt_calls example_backend vert_inline h
            = [glCreateShader GL_VERTEX_SHADER h, glShaderSource h ''void main() {}'',
               glCompileShader h]" for h
    by (simp add: attempt_calls_def compile_calls_def vert_inline_def example_backend_def
        c_str_def NUL_def)
  have m: "map source_only [vert_inline, frag_both] = [vert_inline, frag_both\<lparr>Path := None\<rparr>]"
    by (simp add: source_only_def vert_inline_def frag_both_def)
  have p: "sourceless_paths [vert_inline, frag_both] = []"
    by (simp add: sourceless_paths_def vert_inline_def frag_both_def)
  have w0: "calls world0 = []" "names world0 = 0" by (simp_all add: world0_def)
  note inst = source_takes_precedence [where env = example_backend and pre = "[vert_inline]"
      and d = frag_both and src = "''void main() {}''" and post = "[]" and w = world0
      and input = "[vert_inline, frag_both]"]
  from inst ok src mal obtain rest where
    "calls (snd ?R)
       = [glCreateShader GL_VERTEX_SHADER 1, glShaderSource 1 ''void main() {}'', glCompileShader 1,
          glCreateShader GL_FRAGMENT_SHADER 2, glShaderSource 2 ''void main() {}'',
          glCompileShader 2] @ rest"
    by (auto simp: w0 a0 cs enumerate_simps)
  then have t: "take 6 (calls (snd ?R))
       = [glCreateShader GL_VERTEX_SHADER 1, glShaderSource 1 ''void main() {}'', glCompileShader 1,
          glCreateShader GL_FRAGMENT_SHADER 2, glShaderSource 2 ''void main() {}'',
          glCompileShader 2]"
    by simp
  have e: "?R = m_skr_gl_create_program_from_shaders example_backend
         (Some [vert_inline, frag_both\<lparr>Path := None\<rparr>]) world0"
    using inst unfolding m by simp
  have o: "opened (calls (snd ?R)) = []"
    using inst unfolding p w0 by simp
  show ?thesis using ok src(1,2) t e o by blast
qed

text \<open>
  Where the error channel does keep the message: a file that cannot be read, and a
  descriptor with neither source nor path that the loop reaches.
\<close>

lemma create_shader_from_file_unreadable_error:
  assumes "fst (m_skr_read_file env path w) = None"
  shows "fst (m_skr_gl_create_shader_from_file env type path w) = 0
       \<and> \<not> SKR_OK (SKR_LAST_ERROR (snd (m_skr_gl_create_shader_from_file env type path w)))"
proof -
  have msg: "''failed to open'' \<noteq> []" "hd ''failed to open'' \<noteq> NUL"
    by (simp_all add: NUL_def)
  have "\<not> SKR_OK (SKR_LAST_ERROR (snd (m_skr_read_file env path w)))"
    using assms set_with_meta_not_OK [OF msg]
    by (auto simp: m_skr_read_file_def Let_def m_skr_last_error_set_def
        split: option.splits if_splits)
  then show ?thesis
    by (simp add: create_shader_from_file_unreadable [OF assms])
qed

lemma compile_loop_both_absent:
  assumes "list_all (shader_ok env) pre" and "Source s = None" and "Path s = None"
  shows "fst (compile_loop env (pre @ s # post) shaders w) = None
       \<and> \<not> SKR_OK (SKR_LAST_ERROR (snd (compile_loop env (pre @ s # post) shaders w)))"
  using assms(1)
proof (induction pre arbitrary: shaders w)
  case Nil
  have msg: "''shader.Source and shader.Path are NULL'' \<noteq> []"
    "hd ''shader.Source and shader.Path are NULL'' \<noteq> NUL"
    by (simp_all add: NUL_def)
  show ?case
    using assms(2,3) set_with_meta_not_OK [OF msg]
    by (simp add: m_skr_last_error_set_def)
next
  case (Cons d pre)
  then have d: "shader_ok env d" and pre: "list_all (shader_ok env) pre" by simp_all
  obtain w1 where step: "compile_loop env (d # (pre @ s # post)) shaders w
               = compile_loop env (pre @ s # post) (shaders @ [Suc (names w)]) w1"
    using loop_step_ok [OF d] by blast
  have lhs: "compile_loop env ((d # pre) @ s # post) shaders w
             = compile_loop env (pre @ s # post) (shaders @ [Suc (names w)]) w1"
    using step by (simp only: append_Cons)
  show ?case
    unfolding lhs by (rule Cons.IH [OF pre])
qed

lemma create_program_both_absent:
  assumes "list_all (shader_ok env) pre" and "Source s = None" and "Path s = None"
    and "malloc_ok env (4 * length (pre @ s # post))"
  shows "fst (m_skr_gl_create_program_from_shaders env (Some (pre @ s # post)) w) = 0
       \<and> \<not> SKR_OK (SKR_LAST_ERROR
             (snd (m_skr_gl_create_program_from_shaders env (Some (pre @ s # post)) w)))"
proof -
  have ne: "pre @ s # post \<noteq> []" by simp
  show ?thesis
    using compile_loop_both_absent [OF assms(1-3), of post "[]" w] assms(4) ne
    by (simp add: m_skr_gl_create_program_from_shaders_def split_beta del: append_is_Nil_conv
        split: option.splits)
qed

text \<open>A batch with a descriptor that does not resolve or compile always gives 0.\<close>

lemma compile_loop_stops:
  assumes "\<not> list_all (shader_ok env) ds"
  shows "fst (compile_loop env ds shaders w) = None"
  using assms
proof (induction ds arbitrary: shaders w)
  case Nil
  then show ?case by simp
next
  case (Cons d ds)
  show ?case
  proof (cases "shader_ok env d")
    case True
    then have rest: "\<not> list_all (shader_ok env) ds" using Cons.prems by simp
    obtain w1 where step: "compile_loop env (d # ds) shaders w
               = compile_loop env ds (shaders @ [Suc (names w)]) w1"
      using loop_step_ok [OF True] by blast
    show ?thesis unfolding step by (rule Cons.IH [OF rest])
  next
    case False
    then show ?thesis using loop_step_fail [OF False, of ds shaders w] by simp
  qed
qed

lemma create_program_returns_0:
  assumes "\<not> list_all (shader_ok env) input"
  shows "fst (m_skr_gl_create_program_from_shaders env (Some input) w) = 0"
  using compile_loop_stops [OF assms, of "[]" w]
  by (simp add: m_skr_gl_create_program_from_shaders_def split_beta split: option.splits)

lemma both_absent_not_ok: "Source s = None \<Longrightarrow> Path s = None \<Longrightarrow> \<not> shader_ok env s"
  by (simp add: shader_ok_def)

end
